theory Spec2Isabelle
  imports Complex_Main "HOL-Library.Sublist"
begin

section \<open>Values of the rendering library and of the browser\<close>

text \<open>
  The component \<^verbatim>\<open>GameMapPixiComponent\<close> is glue over pixi.js and Angular. The library
  objects it touches are modelled by the fields the component reads or writes.
  JavaScript numbers are modelled as exact reals (no rounding, no NaN, no infinities);
  tile coordinates, which are rendered into registry keys, are integers.
\<close>

text \<open>pixi.js \<^verbatim>\<open>ObservablePoint\<close>; \<^verbatim>\<open>set(x, y = x)\<close> writes both coordinates.\<close>

record point =
  pt_x :: real
  pt_y :: real

definition point_set :: "real \<Rightarrow> real option \<Rightarrow> point" where
  "point_set a b = \<lparr>pt_x = a, pt_y = (case b of None \<Rightarrow> a | Some v \<Rightarrow> v)\<rparr>"

type_synonym displayObject = nat
type_synonym texture = nat
type_synonym sprite = nat
type_synonym ticker = nat

text \<open>pixi.js \<^verbatim>\<open>Container\<close>.\<close>

record container =
  position :: point
  scale :: point
  children :: "displayObject list"
  cullable :: bool

definition removeChildren :: "container \<Rightarrow> container" where
  "removeChildren c = c\<lparr>children := []\<rparr>"

text \<open>pixi.js \<^verbatim>\<open>Application\<close>: \<^verbatim>\<open>destroy\<close> marks it destroyed.\<close>

record application =
  destroyed :: bool
  app_ticker :: ticker

definition destroy :: "application \<Rightarrow> application" where
  "destroy a = a\<lparr>destroyed := True\<rparr>"

text \<open>The browser's \<^verbatim>\<open>ResizeObserver\<close>: observing until \<^verbatim>\<open>disconnect()\<close>.\<close>

record resize_observer =
  observing :: bool

definition disconnect :: "resize_observer \<Rightarrow> resize_observer" where
  "disconnect ob = ob\<lparr>observing := False\<rparr>"

text \<open>The host \<^verbatim>\<open>div\<close> (\<^verbatim>\<open>nativeElement\<close> of the view child) and the canvas rectangle.\<close>

record hostElement =
  clientWidth :: real
  clientHeight :: real

record domRect =
  rect_left :: real
  rect_top :: real

record wheelEvent =
  deltaY :: real
  clientX :: real
  clientY :: real

section \<open>Interfaces of the repository\<close>

text \<open>\<^verbatim>\<open>interfaces/texture.ts\<close>: \<^verbatim>\<open>Tile\<close>, \<^verbatim>\<open>TextureAtlas\<close>, \<^verbatim>\<open>LoadedTextures\<close>.\<close>

record tile =
  tile_px :: real
  tile_py :: real
  tile_width :: real
  tile_height :: real

type_synonym textureAtlas = "string \<rightharpoonup> tile"
type_synonym loadedTextures = "string \<rightharpoonup> texture"

text \<open>\<^verbatim>\<open>interfaces/sprite.ts\<close>: \<^verbatim>\<open>NodeSpriteData\<close> and the registry \<^verbatim>\<open>NodeSprites\<close>.\<close>

record nodeSpriteData =
  terrain :: sprite
  object :: "sprite option"
  claimIndicator :: "sprite option"

type_synonym nodeSprites = "string \<rightharpoonup> nodeSpriteData"

text \<open>\<^verbatim>\<open>interfaces/camera.ts\<close>: \<^verbatim>\<open>CameraState\<close>.\<close>

record cameraState =
  cam_x :: real
  cam_y :: real

text \<open>The world size read from \<^verbatim>\<open>gamestate().world\<close>, and the game state signal.\<close>

record worldSize =
  width :: real
  height :: real

record gamestate =
  world :: worldSize
  camera :: cameraState

text \<open>
  The signals the computed values read: \<^verbatim>\<open>gamestate()\<close>, \<^verbatim>\<open>windowWidthTiles()\<close> and
  \<^verbatim>\<open>windowHeightTiles()\<close>.
\<close>

record signals =
  sig_gamestate :: gamestate
  windowWidthTiles :: real
  windowHeightTiles :: real

text \<open>\<^verbatim>\<open>MapTileData\<close>: a tile of the grid with its \<^verbatim>\<open>WorldLocation\<close> (opaque, \<open>'n\<close>).\<close>

record 'n mapTileData =
  tile_x :: int
  tile_y :: int
  nodeData :: 'n

record 'n mapGrid =
  tiles :: "'n mapTileData list list"

section \<open>The helpers the component imports\<close>

text \<open>
  The helpers of \<^verbatim>\<open>../../helpers\<close> are not part of the sources at hand. Those called while
  the map is redrawn are parameters of the model: total functions of the arguments the
  component passes, returning what the component uses, together with the new value of
  each object they receive and may mutate.
\<close>

record 'n helpers =
  generateMapGrid :: "real \<Rightarrow> real \<Rightarrow> real \<Rightarrow> real \<Rightarrow> real \<Rightarrow> real \<Rightarrow> 'n mapGrid"
  createNodeSprites_helper ::
    "int \<Rightarrow> int \<Rightarrow> 'n \<Rightarrow> loadedTextures \<Rightarrow> loadedTextures \<Rightarrow> container \<Rightarrow>
     texture option \<Rightarrow> texture option \<Rightarrow> nodeSpriteData option \<times> container"
  isAtNode :: "'n \<Rightarrow> bool"
  createPlayerIndicator :: "int \<Rightarrow> int \<Rightarrow> container \<Rightarrow> ticker \<Rightarrow> container \<times> ticker"

text \<open>
  What the awaited \<^verbatim>\<open>initializePixiApp\<close> and the synchronous \<^verbatim>\<open>createGameMapContainers\<close>
  and \<^verbatim>\<open>setupResponsiveCanvas\<close> hand back to \<^verbatim>\<open>initPixi\<close>.
\<close>

record initResult =
  ir_app :: application
  ir_mapContainer :: container
  ir_playerIndicatorContainer :: container
  ir_resizeObserver :: resize_observer

text \<open>
  What \<^verbatim>\<open>loadTextures\<close> gets from its three calls: each either throws (a rejected promise
  for the awaited one) or returns.
\<close>

datatype error = Error string

record gameMapTextures =
  gm_terrainTextures :: loadedTextures
  gm_objectTextures :: loadedTextures

record claimIndicatorTextures =
  ci_checkTexture :: texture
  ci_xTexture :: texture

record loadEnv =
  artAtlases :: "error + (string \<rightharpoonup> textureAtlas)"
  loadGameMapTextures :: "textureAtlas option \<Rightarrow> textureAtlas option \<Rightarrow> error + gameMapTextures"
  createClaimIndicatorTextures :: "error + claimIndicatorTextures"

section \<open>The component\<close>

text \<open>
  Where the asynchronous \<^verbatim>\<open>ngOnInit\<close> stands: not yet called, suspended at the await in
  \<^verbatim>\<open>initPixi\<close>, rejected there, suspended at the await in \<^verbatim>\<open>loadTextures\<close>, or finished.
\<close>

datatype phase = Constructed | InitPending | InitFailed | TexturesPending | Mounted

text \<open>The observable actions of the life cycle, in the order they happen.\<close>

datatype origin = ByNgOnInit | ByEffect

datatype action =
    InitializePixiApp "hostElement option" "real option" "real option"
  | PixiAppReady
  | LoadTexturesCalled
  | LoadTexturesReturned
  | UpdateMapCalled origin

text \<open>
  The fields of the class, followed by what the model adds: the signals' current values,
  the calls made to the logger and to \<^verbatim>\<open>loadGameMapTextures\<close>, the listeners registered
  on the canvas, the suspension point of \<^verbatim>\<open>ngOnInit\<close>, whether Angular has destroyed the
  component (and with it the effect), and the trace of actions.
\<close>

record component =
  pixiContainer :: "hostElement option"
  app :: "application option"
  mapContainer :: "container option"
  terrainTextures :: loadedTextures
  objectTextures :: loadedTextures
  checkTexture :: "texture option"
  xTexture :: "texture option"
  nodeSprites :: nodeSprites
  playerIndicatorContainer :: "container option"
  resizeObserver :: "resize_observer option"
  zoomLevel :: real
  env :: signals
  errorLog :: "(string \<times> error) list"
  loadCalls :: nat
  wheelListener :: bool
  dragSetup :: bool
  phase :: phase
  alive :: bool
  trace :: "action list"

definition minZoom :: real where
  "minZoom = 0.5"

definition maxZoom :: real where
  "maxZoom = 1.0"

text \<open>The field initialisers of the class, for a given host element and signal values.\<close>

definition initial :: "hostElement option \<Rightarrow> signals \<Rightarrow> component" where
  "initial host sg =
     \<lparr>pixiContainer = host, app = None, mapContainer = None,
      terrainTextures = Map.empty, objectTextures = Map.empty,
      checkTexture = None, xTexture = None, nodeSprites = Map.empty,
      playerIndicatorContainer = None, resizeObserver = None, zoomLevel = 1.0,
      env = sg, errorLog = [], loadCalls = 0, wheelListener = False, dragSetup = False,
      phase = Constructed, alive = True, trace = []\<rparr>"

subsection \<open>Computed values\<close>

definition nodeWidth :: "signals \<Rightarrow> real" where
  "nodeWidth sg = min (width (world (sig_gamestate sg))) (windowWidthTiles sg + 1)"

definition nodeHeight :: "signals \<Rightarrow> real" where
  "nodeHeight sg = min (height (world (sig_gamestate sg))) (windowHeightTiles sg + 1)"

definition map_c :: "'n helpers \<Rightarrow> signals \<Rightarrow> 'n mapGrid" where
  "map_c H sg =
     (let cam = camera (sig_gamestate sg);
          w = nodeWidth sg;
          h = nodeHeight sg;
          wld = world (sig_gamestate sg)
      in generateMapGrid H (cam_x cam) (cam_y cam) w h (width wld) (height wld))"

subsection \<open>Wheel zoom\<close>

text \<open>
  \<^verbatim>\<open>onWheel\<close>. The canvas rectangle is what \<^verbatim>\<open>getBoundingClientRect()\<close> returns at the
  event. \<^verbatim>\<open>event.preventDefault()\<close> acts on the event only and is left out. The division
  by \<open>oldZoom\<close> is exact; the zoom level is never zero in a state the component reaches.
  \<open>onWheel_zoom\<close> is the part of the handler after its early returns.
\<close>

definition onWheel_zoom ::
  "domRect \<Rightarrow> wheelEvent \<Rightarrow> container \<Rightarrow> real \<Rightarrow> real \<Rightarrow> component \<Rightarrow> component"
where
  "onWheel_zoom rect event mc oldZoom newZoom s =
     (let mouseX = clientX event - rect_left rect;
          mouseY = clientY event - rect_top rect;
          mapPos = position mc;
          worldX = (mouseX - pt_x mapPos) / oldZoom;
          worldY = (mouseY - pt_y mapPos) / oldZoom;
          mc1 = mc\<lparr>scale := point_set newZoom None\<rparr>;
          pic1 = map_option (\<lambda>p. p\<lparr>scale := point_set newZoom None\<rparr>)
                   (playerIndicatorContainer s);
          mc2 = mc1\<lparr>position :=
                  point_set (mouseX - worldX * newZoom) (Some (mouseY - worldY * newZoom))\<rparr>;
          pic2 = map_option
                   (\<lambda>p. p\<lparr>position :=
                      point_set (pt_x (position mc2)) (Some (pt_y (position mc2)))\<rparr>)
                   pic1
      in s\<lparr>zoomLevel := newZoom, mapContainer := Some mc2,
           playerIndicatorContainer := pic2\<rparr>)"

definition onWheel :: "domRect \<Rightarrow> wheelEvent \<Rightarrow> component \<Rightarrow> component" where
  "onWheel rect event s =
     (case mapContainer s of
        None \<Rightarrow> s
      | Some mc \<Rightarrow>
         (case app s of
            None \<Rightarrow> s
          | Some a \<Rightarrow>
             (let oldZoom = zoomLevel s;
                  zoomDelta = (if deltaY event < 0 then 0.1 else - 0.1);
                  newZoom = max minZoom (min maxZoom (zoomLevel s + zoomDelta))
              in if newZoom = oldZoom then s
                 else onWheel_zoom rect event mc oldZoom newZoom s)))"

subsection \<open>Texture loading\<close>

text \<open>
  \<^verbatim>\<open>loadTextures\<close>: the body of the \<^verbatim>\<open>try\<close> runs until one of its three calls throws; the
  \<^verbatim>\<open>catch\<close> logs through the logger service and the method returns normally.
\<close>

definition logError :: "error \<Rightarrow> component \<Rightarrow> component" where
  "logError e s = s\<lparr>errorLog := errorLog s @ [(''Failed to load textures:'', e)]\<rparr>"

definition loadTextures :: "loadEnv \<Rightarrow> component \<Rightarrow> component" where
  "loadTextures le s =
     (case artAtlases le of
        Inl e \<Rightarrow> logError e s
      | Inr atl \<Rightarrow>
         (let s0 = s\<lparr>loadCalls := loadCalls s + 1\<rparr> in
          case loadGameMapTextures le (atl ''world-terrain'') (atl ''world-object'') of
            Inl e \<Rightarrow> logError e s0
          | Inr textures \<Rightarrow>
             (let s1 = s0\<lparr>terrainTextures := gm_terrainTextures textures,
                           objectTextures := gm_objectTextures textures\<rparr>
              in case createClaimIndicatorTextures le of
                   Inl e \<Rightarrow> logError e s1
                 | Inr claimTextures \<Rightarrow>
                     s1\<lparr>checkTexture := Some (ci_checkTexture claimTextures),
                        xTexture := Some (ci_xTexture claimTextures)\<rparr>)))"

subsection \<open>Redrawing the map\<close>

text \<open>
  The template literal \<^verbatim>\<open>`${x}-${y}`\<close>: the decimal rendering of both coordinates, joined
  by a hyphen.
\<close>

definition digit :: "nat \<Rightarrow> char" where
  "digit d = ''0123456789'' ! d"

fun nat_to_string :: "nat \<Rightarrow> string" where
  "nat_to_string n =
     (if n < 10 then [digit n] else nat_to_string (n div 10) @ [digit (n mod 10)])"

definition number_to_string :: "int \<Rightarrow> string" where
  "number_to_string i =
     (if i < 0 then CHR ''-'' # nat_to_string (nat (- i)) else nat_to_string (nat i))"

definition nodeKey :: "int \<Rightarrow> int \<Rightarrow> string" where
  "nodeKey x y = number_to_string x @ ''-'' @ number_to_string y"

text \<open>
  \<^verbatim>\<open>mapData.forEach((row) => row.forEach(...))\<close>: the rows in order, each row's tiles in
  order.
\<close>

definition forEachTile ::
  "('n mapTileData \<Rightarrow> component \<Rightarrow> component) \<Rightarrow> 'n mapTileData list list \<Rightarrow> component \<Rightarrow> component"
where
  "forEachTile f mapData s = foldl (\<lambda>s1 row. foldl (\<lambda>s2 t. f t s2) s1 row) s mapData"

text \<open>
  The method \<^verbatim>\<open>createNodeSprites\<close>. The click callback it hands to the helper is not run
  while the sprites are created and is left out.
\<close>

definition createNodeSprites :: "'n helpers \<Rightarrow> int \<Rightarrow> int \<Rightarrow> 'n \<Rightarrow> component \<Rightarrow> component" where
  "createNodeSprites H x y nd s =
     (case mapContainer s of
        None \<Rightarrow> s
      | Some mc \<Rightarrow>
         (let key = nodeKey x y;
              made = createNodeSprites_helper H x y nd (terrainTextures s) (objectTextures s)
                       mc (checkTexture s) (xTexture s);
              s1 = s\<lparr>mapContainer := Some (snd made)\<rparr>
          in case fst made of
               None \<Rightarrow> s1
             | Some spriteData \<Rightarrow> s1\<lparr>nodeSprites := (nodeSprites s1)(key \<mapsto> spriteData)\<rparr>))"

definition placePlayerIndicator :: "'n helpers \<Rightarrow> 'n mapTileData \<Rightarrow> component \<Rightarrow> component" where
  "placePlayerIndicator H t s =
     (if \<not> isAtNode H (nodeData t) then s
      else
        (case playerIndicatorContainer s of
           None \<Rightarrow> s
         | Some pc \<Rightarrow>
            (case app s of
               None \<Rightarrow> s
             | Some a \<Rightarrow>
                (let made = createPlayerIndicator H (tile_x t) (tile_y t) pc (app_ticker a)
                 in s\<lparr>playerIndicatorContainer := Some (fst made),
                      app := Some (a\<lparr>app_ticker := snd made\<rparr>)\<rparr>))))"

definition updatePlayerIndicators :: "'n helpers \<Rightarrow> 'n mapTileData list list \<Rightarrow> component \<Rightarrow> component" where
  "updatePlayerIndicators H mapData s =
     (if playerIndicatorContainer s = None \<or> app s = None then s
      else forEachTile (placePlayerIndicator H) mapData s)"

text \<open>The first three statements of \<^verbatim>\<open>updateMap\<close> after its guard.\<close>

definition clearMap :: "container \<Rightarrow> container \<Rightarrow> component \<Rightarrow> component" where
  "clearMap mc pc s =
     s\<lparr>mapContainer := Some (removeChildren mc),
       playerIndicatorContainer := Some (removeChildren pc),
       nodeSprites := Map.empty\<rparr>"

definition updateMap :: "'n helpers \<Rightarrow> 'n mapTileData list list \<Rightarrow> component \<Rightarrow> component" where
  "updateMap H mapData s =
     (case mapContainer s of
        None \<Rightarrow> s
      | Some mc \<Rightarrow>
         (case playerIndicatorContainer s of
            None \<Rightarrow> s
          | Some pc \<Rightarrow>
             (let s1 = clearMap mc pc s;
                  s2 = forEachTile
                         (\<lambda>t. createNodeSprites H (tile_x t) (tile_y t) (nodeData t)) mapData s1
              in updatePlayerIndicators H mapData s2)))"

subsection \<open>Mount and teardown\<close>

definition ngOnDestroy :: "component \<Rightarrow> component" where
  "ngOnDestroy s =
     s\<lparr>resizeObserver := map_option disconnect (resizeObserver s),
       app := map_option destroy (app s)\<rparr>"

text \<open>
  \<^verbatim>\<open>setupMouseDragging\<close>: past its guard it hands both containers to \<^verbatim>\<open>setupMapDragging\<close>
  and registers the wheel listener on the canvas.
\<close>

definition setupMouseDragging :: "component \<Rightarrow> component" where
  "setupMouseDragging s =
     (if app s = None \<or> mapContainer s = None \<or> playerIndicatorContainer s = None then s
      else s\<lparr>dragSetup := True, wheelListener := True\<rparr>)"

text \<open>
  \<^verbatim>\<open>ngOnInit\<close> up to its first suspension: \<^verbatim>\<open>initPixi\<close> calls \<^verbatim>\<open>initializePixiApp\<close> with the
  host element and its client size, and awaits.
\<close>

definition ngOnInit_call :: "component \<Rightarrow> component" where
  "ngOnInit_call s =
     s\<lparr>phase := InitPending,
       trace := trace s @
         [InitializePixiApp (pixiContainer s)
            (map_option clientWidth (pixiContainer s))
            (map_option clientHeight (pixiContainer s))]\<rparr>"

text \<open>\<^verbatim>\<open>initPixi\<close> after its await.\<close>

definition initPixi_resume :: "initResult \<Rightarrow> component \<Rightarrow> component" where
  "initPixi_resume r s =
     setupMouseDragging
       (s\<lparr>app := Some (ir_app r),
          mapContainer := Some ((ir_mapContainer r)\<lparr>cullable := True\<rparr>),
          playerIndicatorContainer := Some (ir_playerIndicatorContainer r),
          resizeObserver := Some (ir_resizeObserver r)\<rparr>)"

text \<open>The effect registered by the constructor, run for the current signal values.\<close>

definition mapEffect :: "'n helpers \<Rightarrow> component \<Rightarrow> component" where
  "mapEffect H s =
     (let mapData = map_c H (env s)
      in if app s \<noteq> None \<and> mapContainer s \<noteq> None
         then updateMap H (tiles mapData) (s\<lparr>trace := trace s @ [UpdateMapCalled ByEffect]\<rparr>)
         else s)"

text \<open>\<^verbatim>\<open>ngOnInit\<close> from the settling of \<^verbatim>\<open>loadGameMapTextures\<close> to its end.\<close>

definition ngOnInit_finish :: "'n helpers \<Rightarrow> loadEnv \<Rightarrow> component \<Rightarrow> component" where
  "ngOnInit_finish H le s =
     (let s1 = loadTextures le s;
          s2 = s1\<lparr>trace := trace s1 @ [LoadTexturesReturned, UpdateMapCalled ByNgOnInit]\<rparr>;
          s3 = updateMap H (tiles (map_c H (env s2))) s2
      in s3\<lparr>phase := Mounted\<rparr>)"

subsection \<open>The event loop\<close>

text \<open>
  What the single-threaded event loop delivers to the component: Angular's calls of the
  life-cycle hooks, the settling of the two awaited promises, a change of the signals
  (which reruns the effect while the component is alive), a wheel event on the canvas,
  and a move of the containers by the drag helper.
\<close>

datatype event =
    NgOnInit
  | PixiAppResolved initResult
  | PixiAppRejected
  | TexturesSettled loadEnv
  | SignalsChanged signals
  | Wheel domRect wheelEvent
  | Dragged point point
  | NgOnDestroy

text \<open>
  Modelled from the spec: \<^verbatim>\<open>setupMapDragging\<close> is missing from the sources; on a pointer
  drag it translates the layers it was given. The positions it leaves are the event's.
\<close>

definition dragged :: "point \<Rightarrow> point \<Rightarrow> component \<Rightarrow> component" where
  "dragged p q s =
     s\<lparr>mapContainer := map_option (\<lambda>c. c\<lparr>position := p\<rparr>) (mapContainer s),
       playerIndicatorContainer :=
         map_option (\<lambda>c. c\<lparr>position := q\<rparr>) (playerIndicatorContainer s)\<rparr>"

fun step :: "'n helpers \<Rightarrow> event \<Rightarrow> component \<Rightarrow> component" where
  "step H NgOnInit s = (if phase s = Constructed then ngOnInit_call s else s)"
| "step H (PixiAppResolved r) s =
     (if phase s = InitPending
      then (let s1 = initPixi_resume r s
            in s1\<lparr>phase := TexturesPending,
                  trace := trace s1 @ [PixiAppReady, LoadTexturesCalled]\<rparr>)
      else s)"
| "step H PixiAppRejected s = (if phase s = InitPending then s\<lparr>phase := InitFailed\<rparr> else s)"
| "step H (TexturesSettled le) s =
     (if phase s = TexturesPending then ngOnInit_finish H le s else s)"
| "step H (SignalsChanged sg) s =
     (if alive s then mapEffect H (s\<lparr>env := sg\<rparr>) else s\<lparr>env := sg\<rparr>)"
| "step H (Wheel rect ev) s = (if wheelListener s then onWheel rect ev s else s)"
| "step H (Dragged p q) s = (if dragSetup s then dragged p q s else s)"
| "step H NgOnDestroy s = (if alive s then (ngOnDestroy s)\<lparr>alive := False\<rparr> else s)"

fun run :: "'n helpers \<Rightarrow> event list \<Rightarrow> component \<Rightarrow> component" where
  "run H [] s = s"
| "run H (e # es) s = run H es (step H e s)"

section \<open>Notions used in the statements\<close>

text \<open>
  The zoom step of the wheel handler, \<^verbatim>\<open>clamp(oldZoom \<plusminus> 0.1, 0.5, 1.0)\<close>, and the world
  point under the cursor as the specification writes it.
\<close>

definition zoomDelta :: "wheelEvent \<Rightarrow> real" where
  "zoomDelta ev = (if deltaY ev < 0 then 0.1 else - 0.1)"

definition clampZoom :: "real \<Rightarrow> real" where
  "clampZoom z = max minZoom (min maxZoom z)"

definition worldPointUnderCursor :: "real \<Rightarrow> real \<Rightarrow> real \<Rightarrow> real" where
  "worldPointUnderCursor cursorPos offset zoom = (cursorPos - offset) / zoom"

definition initAction :: "hostElement option \<Rightarrow> action" where
  "initAction host =
     InitializePixiApp host (map_option clientWidth host) (map_option clientHeight host)"

definition lifecycle_trace :: "action \<Rightarrow> phase \<Rightarrow> nat \<Rightarrow> nat \<Rightarrow> action list" where
  "lifecycle_trace i ph n m =
     (case ph of
        Constructed \<Rightarrow> []
      | InitPending \<Rightarrow> [i]
      | InitFailed \<Rightarrow> [i]
      | TexturesPending \<Rightarrow>
          [i, PixiAppReady, LoadTexturesCalled] @ replicate n (UpdateMapCalled ByEffect)
      | Mounted \<Rightarrow>
          [i, PixiAppReady, LoadTexturesCalled] @ replicate n (UpdateMapCalled ByEffect) @
          [LoadTexturesReturned, UpdateMapCalled ByNgOnInit] @
          replicate m (UpdateMapCalled ByEffect))"

fun spritesCreated ::
  "'n helpers \<Rightarrow> loadedTextures \<Rightarrow> loadedTextures \<Rightarrow> texture option \<Rightarrow> texture option \<Rightarrow>
   'n mapTileData list \<Rightarrow> container \<Rightarrow> (int \<times> int \<times> nodeSpriteData) list"
where
  "spritesCreated H tt ot ct xt [] c = []"
| "spritesCreated H tt ot ct xt (t # ts) c =
     (let made = createNodeSprites_helper H (tile_x t) (tile_y t) (nodeData t) tt ot c ct xt
      in (case fst made of None \<Rightarrow> [] | Some d \<Rightarrow> [(tile_x t, tile_y t, d)]) @
         spritesCreated H tt ot ct xt ts (snd made))"

definition registryOf :: "(int \<times> int \<times> nodeSpriteData) list \<Rightarrow> nodeSprites" where
  "registryOf made = map_of (rev (map (\<lambda>(x, y, d). (nodeKey x y, d)) made))"

text \<open>
  What a redraw leaves alone, and what holds of every state the component reaches.
\<close>

definition frame :: "component \<Rightarrow> component \<Rightarrow> bool" where
  "frame s s' =
     (pixiContainer s' = pixiContainer s \<and> terrainTextures s' = terrainTextures s \<and>
      objectTextures s' = objectTextures s \<and> checkTexture s' = checkTexture s \<and>
      xTexture s' = xTexture s \<and> resizeObserver s' = resizeObserver s \<and>
      zoomLevel s' = zoomLevel s \<and> env s' = env s \<and> errorLog s' = errorLog s \<and>
      loadCalls s' = loadCalls s \<and> wheelListener s' = wheelListener s \<and>
      dragSetup s' = dragSetup s \<and> phase s' = phase s \<and> alive s' = alive s \<and>
      trace s' = trace s \<and>
      (app s' = None) = (app s = None) \<and>
      map_option destroyed (app s') = map_option destroyed (app s) \<and>
      (mapContainer s' = None) = (mapContainer s = None) \<and>
      (playerIndicatorContainer s' = None) = (playerIndicatorContainer s = None))"

definition lifecycle_inv :: "component \<Rightarrow> bool" where
  "lifecycle_inv s =
     (minZoom \<le> zoomLevel s \<and> zoomLevel s \<le> maxZoom \<and>
      (if phase s = TexturesPending \<or> phase s = Mounted
       then app s \<noteq> None \<and> mapContainer s \<noteq> None \<and> playerIndicatorContainer s \<noteq> None \<and>
            wheelListener s \<and> dragSetup s \<and> resizeObserver s \<noteq> None
       else app s = None \<and> mapContainer s = None \<and> playerIndicatorContainer s = None \<and>
            \<not> wheelListener s \<and> \<not> dragSetup s \<and> resizeObserver s = None))"

definition released :: "component \<Rightarrow> bool" where
  "released s =
     ((\<forall>ob. resizeObserver s = Some ob \<longrightarrow> \<not> observing ob) \<and>
      (\<forall>a. app s = Some a \<longrightarrow> destroyed a))"

definition trace_inv :: "hostElement option \<Rightarrow> component \<Rightarrow> bool" where
  "trace_inv host s =
     (pixiContainer s = host \<and>
      (\<exists>n m. trace s = lifecycle_trace (initAction host) (phase s) n m))"



section \<open>Example values\<close>

definition example_host :: "hostElement option" where
  "example_host = Some \<lparr>clientWidth = 800, clientHeight = 600\<rparr>"

definition example_signals :: signals where
  "example_signals =
     \<lparr>sig_gamestate = \<lparr>world = \<lparr>width = 100, height = 80\<rparr>, camera = \<lparr>cam_x = 3, cam_y = 4\<rparr>\<rparr>,
      windowWidthTiles = 12, windowHeightTiles = 8\<rparr>"

text \<open>
  A location is its terrain sprite's name and whether the player is there. The example
  helper creates a terrain sprite when the texture of that name is loaded and returns
  nothing otherwise; the player indicator is a display object of its own.
\<close>

definition example_tiles :: "(string \<times> bool) mapTileData list list" where
  "example_tiles =
     [[\<lparr>tile_x = 3, tile_y = 4, nodeData = (''grass'', True)\<rparr>,
       \<lparr>tile_x = 4, tile_y = 4, nodeData = (''lava'', False)\<rparr>],
      [\<lparr>tile_x = 3, tile_y = 5, nodeData = (''grass'', False)\<rparr>,
       \<lparr>tile_x = 4, tile_y = 5, nodeData = (''lava'', False)\<rparr>]]"

definition example_helpers :: "(string \<times> bool) helpers" where
  "example_helpers =
     \<lparr>generateMapGrid = (\<lambda>cx cy w h ww wh. \<lparr>tiles = example_tiles\<rparr>),
      createNodeSprites_helper =
        (\<lambda>x y nd tt ot c ct xt.
           case tt (fst nd) of
             None \<Rightarrow> (None, c)
           | Some tx \<Rightarrow>
               (Some \<lparr>terrain = tx, object = None, claimIndicator = None\<rparr>,
                c\<lparr>children := children c @ [tx]\<rparr>)),
      isAtNode = snd,
      createPlayerIndicator = (\<lambda>x y c tk. (c\<lparr>children := children c @ [1000]\<rparr>, tk + 1))\<rparr>"

definition example_container :: container where
  "example_container =
     \<lparr>position = \<lparr>pt_x = 40, pt_y = 60\<rparr>, scale = \<lparr>pt_x = 1, pt_y = 1\<rparr>,
      children = [], cullable = False\<rparr>"

definition example_init :: initResult where
  "example_init =
     \<lparr>ir_app = \<lparr>destroyed = False, app_ticker = 0\<rparr>,
      ir_mapContainer = example_container,
      ir_playerIndicatorContainer = example_container,
      ir_resizeObserver = \<lparr>observing = True\<rparr>\<rparr>"

definition example_rect :: domRect where
  "example_rect = \<lparr>rect_left = 10, rect_top = 20\<rparr>"

definition wheel_out :: wheelEvent where
  "wheel_out = \<lparr>deltaY = 100, clientX = 310, clientY = 220\<rparr>"

definition wheel_in :: wheelEvent where
  "wheel_in = \<lparr>deltaY = - 100, clientX = 310, clientY = 220\<rparr>"

definition example_start :: "event list" where
  "example_start = [NgOnInit, PixiAppResolved example_init]"

definition example_pending :: component where
  "example_pending = run example_helpers example_start (initial example_host example_signals)"

definition stale_entry :: nodeSpriteData where
  "stale_entry = \<lparr>terrain = 99, object = None, claimIndicator = None\<rparr>"

definition example_textures :: gameMapTextures where
  "example_textures =
     \<lparr>gm_terrainTextures = [''grass'' \<mapsto> 7], gm_objectTextures = [''tree'' \<mapsto> 8]\<rparr>"

definition load_ok :: loadEnv where
  "load_ok =
     \<lparr>artAtlases = Inr Map.empty,
      loadGameMapTextures = (\<lambda>terrainAtlas objectAtlas. Inr example_textures),
      createClaimIndicatorTextures = Inr \<lparr>ci_checkTexture = 3, ci_xTexture = 4\<rparr>\<rparr>"

definition load_rejected :: loadEnv where
  "load_rejected =
     \<lparr>artAtlases = Inr Map.empty,
      loadGameMapTextures = (\<lambda>terrainAtlas objectAtlas. Inl (Error ''404'')),
      createClaimIndicatorTextures = Inr \<lparr>ci_checkTexture = 3, ci_xTexture = 4\<rparr>\<rparr>"

definition indicators_throw :: loadEnv where
  "indicators_throw =
     \<lparr>artAtlases = Inr Map.empty,
      loadGameMapTextures = (\<lambda>terrainAtlas objectAtlas. Inr example_textures),
      createClaimIndicatorTextures = Inl (Error ''no canvas'')\<rparr>"

definition example_stale :: component where
  "example_stale =
     (loadTextures load_ok example_pending)\<lparr>nodeSprites := [''9-9'' \<mapsto> stale_entry]\<rparr>"

definition example_teardown :: "event list" where
  "example_teardown = [Wheel example_rect wheel_out, SignalsChanged example_signals]"




text \<open>Angular destroys the component while \<^verbatim>\<open>initPixi\<close> awaits; the promise fulfils later.\<close>

definition late_init :: "event list" where
  "late_init = [NgOnInit, NgOnDestroy, PixiAppResolved example_init]"

section \<open>Lemmas\<close>

subsection \<open>The wheel handler, case by case\<close>

lemma onWheel_eq:
  "onWheel rect ev s =
     (case mapContainer s of
        None \<Rightarrow> s
      | Some mc \<Rightarrow>
         (case app s of
            None \<Rightarrow> s
          | Some a \<Rightarrow>
             if clampZoom (zoomLevel s + zoomDelta ev) = zoomLevel s then s
             else onWheel_zoom rect ev mc (zoomLevel s) (clampZoom (zoomLevel s + zoomDelta ev)) s))"
  by (simp only: onWheel_def Let_def clampZoom_def zoomDelta_def)

lemma onWheel_zoom_fields:
  "zoomLevel (onWheel_zoom rect ev mc z z' s) = z'"
  "mapContainer (onWheel_zoom rect ev mc z z' s) =
     Some (mc\<lparr>scale := \<lparr>pt_x = z', pt_y = z'\<rparr>,
              position :=
                \<lparr>pt_x = (clientX ev - rect_left rect)
                          - worldPointUnderCursor (clientX ev - rect_left rect) (pt_x (position mc)) z * z',
                 pt_y = (clientY ev - rect_top rect)
                          - worldPointUnderCursor (clientY ev - rect_top rect) (pt_y (position mc)) z * z'\<rparr>\<rparr>)"
  "playerIndicatorContainer (onWheel_zoom rect ev mc z z' s) =
     map_option (\<lambda>p. p\<lparr>scale := \<lparr>pt_x = z', pt_y = z'\<rparr>,
              position :=
                \<lparr>pt_x = (clientX ev - rect_left rect)
                          - worldPointUnderCursor (clientX ev - rect_left rect) (pt_x (position mc)) z * z',
                 pt_y = (clientY ev - rect_top rect)
                          - worldPointUnderCursor (clientY ev - rect_top rect) (pt_y (position mc)) z * z'\<rparr>\<rparr>)
       (playerIndicatorContainer s)"
  by (simp_all add: onWheel_zoom_def Let_def point_set_def worldPointUnderCursor_def
      option.map_comp comp_def)

lemma onWheel_zoom_frame:
  "app (onWheel_zoom rect ev mc z z' s) = app s"
  "wheelListener (onWheel_zoom rect ev mc z z' s) = wheelListener s"
  "dragSetup (onWheel_zoom rect ev mc z z' s) = dragSetup s"
  "phase (onWheel_zoom rect ev mc z z' s) = phase s"
  "alive (onWheel_zoom rect ev mc z z' s) = alive s"
  "trace (onWheel_zoom rect ev mc z z' s) = trace s"
  "env (onWheel_zoom rect ev mc z z' s) = env s"
  "nodeSprites (onWheel_zoom rect ev mc z z' s) = nodeSprites s"
  "resizeObserver (onWheel_zoom rect ev mc z z' s) = resizeObserver s"
  by (simp_all add: onWheel_zoom_def Let_def)

lemma onWheel_frame:
  "app (onWheel rect ev s) = app s"
  "wheelListener (onWheel rect ev s) = wheelListener s"
  "dragSetup (onWheel rect ev s) = dragSetup s"
  "phase (onWheel rect ev s) = phase s"
  "alive (onWheel rect ev s) = alive s"
  "trace (onWheel rect ev s) = trace s"
  "env (onWheel rect ev s) = env s"
  "nodeSprites (onWheel rect ev s) = nodeSprites s"
  "resizeObserver (onWheel rect ev s) = resizeObserver s"
  by (simp_all add: onWheel_eq onWheel_zoom_frame split: option.split)

lemma onWheel_unchanged:
  "clampZoom (zoomLevel s + zoomDelta ev) = zoomLevel s \<Longrightarrow> onWheel rect ev s = s"
  by (simp add: onWheel_eq split: option.split)

lemma clampZoom_range: "minZoom \<le> clampZoom z \<and> clampZoom z \<le> maxZoom"
  by (simp add: clampZoom_def minZoom_def maxZoom_def)

subsection \<open>What a redraw leaves alone\<close>

lemma frame_refl: "frame s s"
  by (simp add: frame_def)

lemma frame_trans: "frame s s' \<Longrightarrow> frame s' s'' \<Longrightarrow> frame s s''"
  by (simp add: frame_def)

lemma frame_foldl:
  assumes "\<And>t s. frame s (f t s)"
  shows "frame s (foldl (\<lambda>s2 t. f t s2) s ts)"
proof (induction ts arbitrary: s)
  case Nil
  show ?case by (simp add: frame_refl)
next
  case (Cons t ts)
  have "frame s (f t s)" by (rule assms)
  moreover have "frame (f t s) (foldl (\<lambda>s2 t. f t s2) (f t s) ts)" by (rule Cons.IH)
  ultimately show ?case by (simp add: frame_trans[of s "f t s"])
qed

lemma forEachTile_concat:
  "forEachTile f mapData s = foldl (\<lambda>s2 t. f t s2) s (concat mapData)"
  unfolding forEachTile_def
  by (induction mapData arbitrary: s) simp_all

lemma frame_forEachTile:
  assumes "\<And>t s. frame s (f t s)"
  shows "frame s (forEachTile f mapData s)"
  unfolding forEachTile_concat by (rule frame_foldl) (rule assms)

lemma frame_createNodeSprites: "frame s (createNodeSprites H x y nd s)"
  by (cases "mapContainer s")
     (simp_all add: createNodeSprites_def Let_def frame_def split: option.split)

lemma frame_placePlayerIndicator: "frame s (placePlayerIndicator H t s)"
  by (cases "playerIndicatorContainer s"; cases "app s")
     (simp_all add: placePlayerIndicator_def Let_def frame_def)

lemma frame_updatePlayerIndicators: "frame s (updatePlayerIndicators H mapData s)"
  by (simp add: updatePlayerIndicators_def frame_refl frame_forEachTile frame_placePlayerIndicator)

lemma frame_clearMap:
  "mapContainer s = Some mc \<Longrightarrow> playerIndicatorContainer s = Some pc \<Longrightarrow> frame s (clearMap mc pc s)"
  by (simp add: clearMap_def frame_def)

lemma frame_updateMap: "frame s (updateMap H mapData s)"
proof (cases "mapContainer s")
  case None
  then show ?thesis by (simp add: updateMap_def frame_refl)
next
  case mc: (Some mc)
  show ?thesis
  proof (cases "playerIndicatorContainer s")
    case None
    then show ?thesis by (simp add: updateMap_def frame_refl mc)
  next
    case (Some pc)
    have "frame s (clearMap mc pc s)" by (rule frame_clearMap[OF mc Some])
    moreover have "frame (clearMap mc pc s)
        (forEachTile (\<lambda>t. createNodeSprites H (tile_x t) (tile_y t) (nodeData t)) mapData
           (clearMap mc pc s))"
      by (rule frame_forEachTile) (rule frame_createNodeSprites)
    ultimately have "frame s
        (forEachTile (\<lambda>t. createNodeSprites H (tile_x t) (tile_y t) (nodeData t)) mapData
           (clearMap mc pc s))"
      by (rule frame_trans)
    then have "frame s (updatePlayerIndicators H mapData
        (forEachTile (\<lambda>t. createNodeSprites H (tile_x t) (tile_y t) (nodeData t)) mapData
           (clearMap mc pc s)))"
      by (rule frame_trans) (rule frame_updatePlayerIndicators)
    then show ?thesis by (simp add: updateMap_def mc Some Let_def)
  qed
qed

subsection \<open>Invariants of the event loop\<close>

lemma run_snoc: "run H (es @ [e]) s = step H e (run H es s)"
  by (induction es arbitrary: s) simp_all

lemma lifecycle_inv_initial: "lifecycle_inv (initial host sg)"
  by (simp add: lifecycle_inv_def initial_def minZoom_def maxZoom_def)

lemma lifecycle_inv_frame: "frame s s' \<Longrightarrow> lifecycle_inv s \<Longrightarrow> lifecycle_inv s'"
  by (simp add: frame_def lifecycle_inv_def)

lemma loadTextures_frame:
  "pixiContainer (loadTextures le s) = pixiContainer s"
  "app (loadTextures le s) = app s"
  "mapContainer (loadTextures le s) = mapContainer s"
  "playerIndicatorContainer (loadTextures le s) = playerIndicatorContainer s"
  "resizeObserver (loadTextures le s) = resizeObserver s"
  "zoomLevel (loadTextures le s) = zoomLevel s"
  "env (loadTextures le s) = env s"
  "wheelListener (loadTextures le s) = wheelListener s"
  "dragSetup (loadTextures le s) = dragSetup s"
  "phase (loadTextures le s) = phase s"
  "alive (loadTextures le s) = alive s"
  "trace (loadTextures le s) = trace s"
  "nodeSprites (loadTextures le s) = nodeSprites s"
  by (simp_all add: loadTextures_def logError_def Let_def split: sum.split)

lemma lifecycle_inv_loadTextures: "lifecycle_inv s \<Longrightarrow> lifecycle_inv (loadTextures le s)"
  by (simp add: lifecycle_inv_def loadTextures_frame)

lemma lifecycle_inv_trace_upd:
  "lifecycle_inv s \<Longrightarrow> lifecycle_inv (s\<lparr>trace := tr\<rparr>)"
  "lifecycle_inv s \<Longrightarrow> lifecycle_inv (s\<lparr>env := sg\<rparr>)"
  by (simp_all add: lifecycle_inv_def)

lemma lifecycle_inv_mapEffect: "lifecycle_inv s \<Longrightarrow> lifecycle_inv (mapEffect H s)"
  unfolding mapEffect_def Let_def
  by (auto intro: lifecycle_inv_frame[OF frame_updateMap] lifecycle_inv_trace_upd)

lemma ngOnInit_finish_frame:
  "frame ((loadTextures le s)\<lparr>trace := trace s @ [LoadTexturesReturned, UpdateMapCalled ByNgOnInit],
           phase := Mounted\<rparr>) (ngOnInit_finish H le s)"
proof -
  let ?s2 = "(loadTextures le s)\<lparr>trace := trace (loadTextures le s) @ [LoadTexturesReturned, UpdateMapCalled ByNgOnInit]\<rparr>"
  have "frame ?s2 (updateMap H (tiles (map_c H (env ?s2))) ?s2)" by (rule frame_updateMap)
  then show ?thesis
    by (simp add: ngOnInit_finish_def Let_def frame_def loadTextures_frame)
qed

lemma lifecycle_inv_ngOnInit_finish:
  assumes "lifecycle_inv s" "phase s = TexturesPending"
  shows "lifecycle_inv (ngOnInit_finish H le s)"
proof -
  have "lifecycle_inv ((loadTextures le s)\<lparr>trace := trace s @ [LoadTexturesReturned, UpdateMapCalled ByNgOnInit],
           phase := Mounted\<rparr>)"
    using assms by (simp add: lifecycle_inv_def loadTextures_frame)
  then show ?thesis by (rule lifecycle_inv_frame[OF ngOnInit_finish_frame])
qed

lemma lifecycle_inv_onWheel:
  assumes "lifecycle_inv s"
  shows "lifecycle_inv (onWheel rect ev s)"
proof (cases "mapContainer s = None \<or> app s = None \<or> clampZoom (zoomLevel s + zoomDelta ev) = zoomLevel s")
  case True
  then have "onWheel rect ev s = s"
    by (auto simp: onWheel_eq split: option.split)
  with assms show ?thesis by simp
next
  case False
  then obtain mc a where mc: "mapContainer s = Some mc" and a: "app s = Some a"
    and ne: "clampZoom (zoomLevel s + zoomDelta ev) \<noteq> zoomLevel s" by auto
  have eq: "onWheel rect ev s =
      onWheel_zoom rect ev mc (zoomLevel s) (clampZoom (zoomLevel s + zoomDelta ev)) s"
    using ne by (simp add: onWheel_eq mc a)
  show ?thesis
    using assms clampZoom_range[of "zoomLevel s + zoomDelta ev"]
    unfolding eq lifecycle_inv_def
    by (auto simp: onWheel_zoom_fields onWheel_zoom_frame mc split: if_splits)
qed

lemma lifecycle_inv_step: "lifecycle_inv s \<Longrightarrow> lifecycle_inv (step H e s)"
proof (cases e)
  case NgOnInit
  assume "lifecycle_inv s"
  then show ?thesis
    by (auto simp: NgOnInit lifecycle_inv_def ngOnInit_call_def split: if_splits)
next
  case (PixiAppResolved r)
  assume "lifecycle_inv s"
  then show ?thesis
    by (auto simp: PixiAppResolved lifecycle_inv_def initPixi_resume_def setupMouseDragging_def Let_def split: if_splits)
next
  case PixiAppRejected
  assume "lifecycle_inv s"
  then show ?thesis
    by (auto simp: PixiAppRejected lifecycle_inv_def split: if_splits)
next
  case (TexturesSettled le)
  assume "lifecycle_inv s"
  then show ?thesis
    by (simp add: TexturesSettled lifecycle_inv_ngOnInit_finish)
next
  case (SignalsChanged sg)
  assume "lifecycle_inv s"
  then show ?thesis
    by (simp add: SignalsChanged lifecycle_inv_mapEffect lifecycle_inv_trace_upd)
next
  case (Wheel rect ev)
  assume "lifecycle_inv s"
  then show ?thesis
    by (simp add: Wheel lifecycle_inv_onWheel)
next
  case (Dragged p q)
  assume "lifecycle_inv s"
  then show ?thesis
    by (auto simp: Dragged lifecycle_inv_def dragged_def split: if_splits)
next
  case NgOnDestroy
  assume "lifecycle_inv s"
  then show ?thesis
    by (auto simp: NgOnDestroy lifecycle_inv_def ngOnDestroy_def split: if_splits)
qed

lemma lifecycle_inv_run: "lifecycle_inv s \<Longrightarrow> lifecycle_inv (run H evs s)"
  by (induction evs arbitrary: s) (simp_all add: lifecycle_inv_step)

subsection \<open>The shape of the trace\<close>

lemma trace_inv_initial: "trace_inv host (initial host sg)"
  by (simp add: trace_inv_def initial_def lifecycle_trace_def)

lemma trace_inv_frame: "frame s s' \<Longrightarrow> trace_inv host s \<Longrightarrow> trace_inv host s'"
  by (simp add: frame_def trace_inv_def)

lemma onWheel_pixiContainer: "pixiContainer (onWheel rect ev s) = pixiContainer s"
  by (simp add: onWheel_eq onWheel_zoom_def Let_def split: option.split)

lemma trace_inv_effect_call:
  assumes "trace_inv host s" "phase s = TexturesPending \<or> phase s = Mounted"
  shows "trace_inv host (s\<lparr>trace := trace s @ [UpdateMapCalled ByEffect]\<rparr>)"
proof -
  from assms(1) obtain n m where h: "pixiContainer s = host"
    and t: "trace s = lifecycle_trace (initAction host) (phase s) n m"
    by (auto simp: trace_inv_def)
  from assms(2) show ?thesis
  proof
    assume p: "phase s = TexturesPending"
    have "trace s @ [UpdateMapCalled ByEffect]
          = lifecycle_trace (initAction host) TexturesPending (Suc n) m"
      using t p by (simp add: lifecycle_trace_def replicate_append_same)
    then show ?thesis using h p by (auto simp: trace_inv_def)
  next
    assume p: "phase s = Mounted"
    have "trace s @ [UpdateMapCalled ByEffect]
          = lifecycle_trace (initAction host) Mounted n (Suc m)"
      using t p by (simp add: lifecycle_trace_def replicate_append_same)
    then show ?thesis using h p by (auto simp: trace_inv_def)
  qed
qed

lemma trace_inv_mapEffect:
  assumes "lifecycle_inv s" "trace_inv host s"
  shows "trace_inv host (mapEffect H s)"
proof (cases "app s \<noteq> None \<and> mapContainer s \<noteq> None")
  case False
  then show ?thesis using assms(2) by (auto simp: mapEffect_def Let_def)
next
  case True
  then have ph: "phase s = TexturesPending \<or> phase s = Mounted"
    using assms(1) by (auto simp: lifecycle_inv_def split: if_splits)
  have "trace_inv host (s\<lparr>trace := trace s @ [UpdateMapCalled ByEffect]\<rparr>)"
    by (rule trace_inv_effect_call[OF assms(2) ph])
  then have "trace_inv host (updateMap H (tiles (map_c H (env s)))
      (s\<lparr>trace := trace s @ [UpdateMapCalled ByEffect]\<rparr>))"
    by (rule trace_inv_frame[OF frame_updateMap])
  then show ?thesis using True by (simp add: mapEffect_def Let_def)
qed

lemma trace_inv_env: "trace_inv host s \<Longrightarrow> trace_inv host (s\<lparr>env := sg\<rparr>)"
  by (simp add: trace_inv_def)

lemma trace_inv_ngOnInit_finish:
  assumes "trace_inv host s" "phase s = TexturesPending"
  shows "trace_inv host (ngOnInit_finish H le s)"
proof -
  from assms obtain n m where h: "pixiContainer s = host"
    and t: "trace s = lifecycle_trace (initAction host) TexturesPending n m"
    by (auto simp: trace_inv_def)
  have "trace s @ [LoadTexturesReturned, UpdateMapCalled ByNgOnInit]
        = lifecycle_trace (initAction host) Mounted n 0"
    using t by (simp add: lifecycle_trace_def)
  then have "trace_inv host ((loadTextures le s)\<lparr>trace := trace s @ [LoadTexturesReturned, UpdateMapCalled ByNgOnInit],
           phase := Mounted\<rparr>)"
    using h by (auto simp: trace_inv_def loadTextures_frame)
  then show ?thesis by (rule trace_inv_frame[OF ngOnInit_finish_frame])
qed

lemma trace_inv_step:
  assumes "lifecycle_inv s" "trace_inv host s"
  shows "trace_inv host (step H e s)"
proof (cases e)
  case NgOnInit
  show ?thesis using assms(2)
    by (auto simp: NgOnInit trace_inv_def ngOnInit_call_def lifecycle_trace_def initAction_def)
next
  case (PixiAppResolved r)
  show ?thesis using assms(2)
    by (auto simp: PixiAppResolved trace_inv_def initPixi_resume_def setupMouseDragging_def
        Let_def lifecycle_trace_def intro: exI[of _ 0])
next
  case PixiAppRejected
  show ?thesis using assms(2)
    by (auto simp: PixiAppRejected trace_inv_def lifecycle_trace_def)
next
  case (TexturesSettled le)
  show ?thesis using assms(2)
    by (simp add: TexturesSettled trace_inv_ngOnInit_finish)
next
  case (SignalsChanged sg)
  have "lifecycle_inv (s\<lparr>env := sg\<rparr>)" "trace_inv host (s\<lparr>env := sg\<rparr>)"
    using assms by (simp_all add: lifecycle_inv_trace_upd trace_inv_env)
  then show ?thesis
    by (simp add: SignalsChanged trace_inv_mapEffect)
next
  case (Wheel rect ev)
  show ?thesis using assms(2)
    by (simp add: Wheel trace_inv_def onWheel_frame onWheel_pixiContainer)
next
  case (Dragged p q)
  show ?thesis using assms(2)
    by (simp add: Dragged trace_inv_def dragged_def)
next
  case NgOnDestroy
  show ?thesis using assms(2)
    by (simp add: NgOnDestroy trace_inv_def ngOnDestroy_def)
qed

lemma invs_run:
  "lifecycle_inv s \<Longrightarrow> trace_inv host s \<Longrightarrow>
   lifecycle_inv (run H evs s) \<and> trace_inv host (run H evs s)"
  by (induction evs arbitrary: s) (simp_all add: lifecycle_inv_step trace_inv_step)

lemma invs_reachable:
  "lifecycle_inv (run H evs (initial host sg)) \<and> trace_inv host (run H evs (initial host sg))"
  by (rule invs_run[OF lifecycle_inv_initial trace_inv_initial])

subsection \<open>The registry after a redraw\<close>

lemma registryOf_Nil: "registryOf [] = Map.empty"
  by (simp add: registryOf_def)

lemma registryOf_append: "registryOf (xs @ ys) = registryOf xs ++ registryOf ys"
  by (simp add: registryOf_def)

lemma registryOf_single: "registryOf [(x, y, d)] = [nodeKey x y \<mapsto> d]"
  by (simp add: registryOf_def)

lemma dom_registryOf: "dom (registryOf made) = {nodeKey x y | x y d. (x, y, d) \<in> set made}"
  by (force simp: registryOf_def dom_map_of_conv_image_fst image_iff)

lemma createNodeSprites_Some:
  assumes "mapContainer s = Some c"
  shows "mapContainer (createNodeSprites H x y nd s) =
           Some (snd (createNodeSprites_helper H x y nd (terrainTextures s) (objectTextures s) c
                        (checkTexture s) (xTexture s)))"
    and "nodeSprites (createNodeSprites H x y nd s) =
           nodeSprites s ++
           registryOf (case fst (createNodeSprites_helper H x y nd (terrainTextures s)
                                   (objectTextures s) c (checkTexture s) (xTexture s)) of
                         None \<Rightarrow> [] | Some d \<Rightarrow> [(x, y, d)])"
  using assms
  by (simp_all add: createNodeSprites_def Let_def registryOf_single registryOf_Nil
      split: option.split)

lemma foldl_createNodeSprites:
  assumes "mapContainer s = Some c"
  shows "nodeSprites (foldl (\<lambda>s2 t. createNodeSprites H (tile_x t) (tile_y t) (nodeData t) s2) s ts)
         = nodeSprites s ++
           registryOf (spritesCreated H (terrainTextures s) (objectTextures s)
                         (checkTexture s) (xTexture s) ts c)"
  using assms
proof (induction ts arbitrary: s c)
  case Nil
  then show ?case by (simp add: registryOf_Nil)
next
  case (Cons t ts)
  let ?s1 = "createNodeSprites H (tile_x t) (tile_y t) (nodeData t) s"
  let ?made = "createNodeSprites_helper H (tile_x t) (tile_y t) (nodeData t) (terrainTextures s)
                 (objectTextures s) c (checkTexture s) (xTexture s)"
  have fr: "frame s ?s1" by (rule frame_createNodeSprites)
  have mc1: "mapContainer ?s1 = Some (snd ?made)"
    by (rule createNodeSprites_Some(1)[OF Cons.prems])
  have ns1: "nodeSprites ?s1 = nodeSprites s ++
        registryOf (case fst ?made of None \<Rightarrow> [] | Some d \<Rightarrow> [(tile_x t, tile_y t, d)])"
    by (rule createNodeSprites_Some(2)[OF Cons.prems])
  have tx: "terrainTextures ?s1 = terrainTextures s" "objectTextures ?s1 = objectTextures s"
    "checkTexture ?s1 = checkTexture s" "xTexture ?s1 = xTexture s"
    using fr by (simp_all add: frame_def)
  show ?case
    using Cons.IH[OF mc1]
    by (simp add: tx ns1 Let_def registryOf_append)
qed

lemma nodeSprites_placePlayerIndicator:
  "nodeSprites (placePlayerIndicator H t s) = nodeSprites s"
  by (cases "playerIndicatorContainer s"; cases "app s")
     (simp_all add: placePlayerIndicator_def Let_def)

lemma nodeSprites_foldl_place:
  "nodeSprites (foldl (\<lambda>s2 t. placePlayerIndicator H t s2) s ts) = nodeSprites s"
  by (induction ts arbitrary: s) (simp_all add: nodeSprites_placePlayerIndicator)

lemma nodeSprites_updatePlayerIndicators:
  "nodeSprites (updatePlayerIndicators H mapData s) = nodeSprites s"
  by (simp add: updatePlayerIndicators_def forEachTile_concat nodeSprites_foldl_place)

lemma clearMap_fields:
  "nodeSprites (clearMap mc pc s) = Map.empty"
  "mapContainer (clearMap mc pc s) = Some (removeChildren mc)"
  "playerIndicatorContainer (clearMap mc pc s) = Some (removeChildren pc)"
  "terrainTextures (clearMap mc pc s) = terrainTextures s"
  "objectTextures (clearMap mc pc s) = objectTextures s"
  "checkTexture (clearMap mc pc s) = checkTexture s"
  "xTexture (clearMap mc pc s) = xTexture s"
  by (simp_all add: clearMap_def)

lemma updateMap_registry:
  assumes "mapContainer s = Some mc" "playerIndicatorContainer s = Some pc"
  shows "nodeSprites (updateMap H mapData s) =
         registryOf (spritesCreated H (terrainTextures s) (objectTextures s)
                       (checkTexture s) (xTexture s) (concat mapData) (removeChildren mc))"
  using foldl_createNodeSprites[of "clearMap mc pc s" "removeChildren mc" H "concat mapData"]
  by (simp add: updateMap_def assms Let_def nodeSprites_updatePlayerIndicators
      forEachTile_concat clearMap_fields)

subsection \<open>Keys of different tiles differ\<close>

lemma digit_cases:
  "d < 10 \<Longrightarrow> d = 0 \<or> d = 1 \<or> d = 2 \<or> d = 3 \<or> d = 4 \<or> d = 5 \<or> d = 6 \<or> d = 7 \<or> d = 8 \<or> d = (9::nat)"
  by arith

lemma digit_not_hyphen: "d < 10 \<Longrightarrow> digit d \<noteq> CHR ''-''"
  using digit_cases[of d] by (auto simp: digit_def)

lemma digit_inj: "d < 10 \<Longrightarrow> e < 10 \<Longrightarrow> digit d = digit e \<Longrightarrow> d = e"
proof -
  assume "d < 10" "e < 10" "digit d = digit e"
  moreover have "distinct ''0123456789''" by simp
  ultimately show "d = e"
    unfolding digit_def by (simp add: nth_eq_iff_index_eq)
qed

declare nat_to_string.simps [simp del]

lemma nat_to_string_small: "n < 10 \<Longrightarrow> nat_to_string n = [digit n]"
  by (simp add: nat_to_string.simps)

lemma nat_to_string_large:
  "\<not> n < 10 \<Longrightarrow> nat_to_string n = nat_to_string (n div 10) @ [digit (n mod 10)]"
  by (subst nat_to_string.simps) simp

lemma nat_to_string_nonempty: "nat_to_string n \<noteq> []"
  by (cases "n < 10") (simp_all add: nat_to_string_small nat_to_string_large)

lemma nat_to_string_no_hyphen: "CHR ''-'' \<notin> set (nat_to_string n)"
proof (induction n rule: nat_to_string.induct)
  case (1 n)
  show ?case
  proof (cases "n < 10")
    case True
    then show ?thesis using digit_not_hyphen[of n] by (auto simp: nat_to_string_small)
  next
    case False
    then show ?thesis
      using 1 digit_not_hyphen[of "n mod 10"] by (auto simp: nat_to_string_large)
  qed
qed

lemma nat_to_string_inj: "nat_to_string n = nat_to_string m \<Longrightarrow> n = m"
proof (induction n arbitrary: m rule: nat_to_string.induct)
  case (1 n)
  show ?case
  proof (cases "n < 10")
    case n: True
    show ?thesis
    proof (cases "m < 10")
      case True
      with n 1(2) show ?thesis by (auto simp: nat_to_string_small dest: digit_inj)
    next
      case False
      with n 1(2) nat_to_string_nonempty[of "m div 10"] show ?thesis
        by (simp add: nat_to_string_small nat_to_string_large)
    qed
  next
    case n: False
    show ?thesis
    proof (cases "m < 10")
      case True
      with n 1(2) nat_to_string_nonempty[of "n div 10"] show ?thesis
        by (simp add: nat_to_string_small nat_to_string_large)
    next
      case False
      with n 1(2) have a: "nat_to_string (n div 10) = nat_to_string (m div 10)"
        and b: "digit (n mod 10) = digit (m mod 10)"
        by (simp_all add: nat_to_string_large)
      from 1(1)[OF n a] have "n div 10 = m div 10" .
      moreover from b have "n mod 10 = m mod 10" by (rule digit_inj[rotated 2]) simp_all
      ultimately show ?thesis by (metis div_mult_mod_eq)
    qed
  qed
qed

lemma number_to_string_inj: "number_to_string i = number_to_string j \<Longrightarrow> i = j"
proof -
  assume h: "number_to_string i = number_to_string j"
  have nohy: "\<And>n. hd (nat_to_string n) \<noteq> CHR ''-''"
    using nat_to_string_no_hyphen nat_to_string_nonempty by (metis hd_in_set)
  show "i = j"
  proof (cases "i < 0")
    case i: True
    show ?thesis
    proof (cases "j < 0")
      case True
      with i h have "nat (- i) = nat (- j)"
        by (auto simp: number_to_string_def dest: nat_to_string_inj)
      with i True show ?thesis by simp
    next
      case False
      with i h have "nat_to_string (nat j) = CHR ''-'' # nat_to_string (nat (- i))"
        by (simp add: number_to_string_def)
      then have "hd (nat_to_string (nat j)) = CHR ''-''" by simp
      with nohy[of "nat j"] show ?thesis by simp
    qed
  next
    case i: False
    show ?thesis
    proof (cases "j < 0")
      case True
      with i h have "nat_to_string (nat i) = CHR ''-'' # nat_to_string (nat (- j))"
        by (simp add: number_to_string_def)
      then have "hd (nat_to_string (nat i)) = CHR ''-''" by simp
      with nohy[of "nat i"] show ?thesis by simp
    next
      case False
      with i h have "nat i = nat j"
        by (auto simp: number_to_string_def dest: nat_to_string_inj)
      with i False show ?thesis by simp
    qed
  qed
qed

lemma number_to_string_split:
  "\<exists>sign ds. number_to_string i = sign @ ds \<and> (sign = [] \<or> sign = ''-'') \<and>
     (sign = [] \<longleftrightarrow> \<not> i < 0) \<and> ds \<noteq> [] \<and> CHR ''-'' \<notin> set ds"
proof (cases "i < 0")
  case True
  then have "number_to_string i = ''-'' @ nat_to_string (nat (- i))"
    by (simp add: number_to_string_def)
  with True show ?thesis
    using nat_to_string_no_hyphen nat_to_string_nonempty by blast
next
  case False
  then have "number_to_string i = [] @ nat_to_string (nat i)"
    by (simp add: number_to_string_def)
  with False show ?thesis
    using nat_to_string_no_hyphen nat_to_string_nonempty by blast
qed

lemma split_at_first:
  "x \<notin> set xs \<Longrightarrow> x \<notin> set xs' \<Longrightarrow> xs @ x # ys = xs' @ x # ys' \<Longrightarrow> xs = xs' \<and> ys = ys'"
proof (induction xs arbitrary: xs')
  case Nil
  then show ?case by (cases xs') auto
next
  case (Cons a xs)
  then show ?case by (cases xs') auto
qed

lemma nodeKey_inj:
  assumes "nodeKey x y = nodeKey x' y'"
  shows "x = x' \<and> y = y'"
proof -
  obtain sg ds where x: "number_to_string x = sg @ ds" and sg: "sg = [] \<or> sg = ''-''"
    and sgx: "sg = [] \<longleftrightarrow> \<not> x < 0" and ds: "ds \<noteq> []" "CHR ''-'' \<notin> set ds"
    using number_to_string_split[of x] by blast
  obtain sg' ds' where x': "number_to_string x' = sg' @ ds'" and sg': "sg' = [] \<or> sg' = ''-''"
    and sgx': "sg' = [] \<longleftrightarrow> \<not> x' < 0" and ds': "ds' \<noteq> []" "CHR ''-'' \<notin> set ds'"
    using number_to_string_split[of x'] by blast
  from assms have e: "sg @ ds @ CHR ''-'' # number_to_string y
                    = sg' @ ds' @ CHR ''-'' # number_to_string y'"
    by (simp add: nodeKey_def x x')
  have hd_ds: "hd ds \<noteq> CHR ''-''" "hd ds' \<noteq> CHR ''-''"
    using ds ds' by (metis hd_in_set)+
  have same: "sg = sg'"
  proof (rule ccontr)
    assume "sg \<noteq> sg'"
    with sg sg' have "(sg = [] \<and> sg' = ''-'') \<or> (sg = ''-'' \<and> sg' = [])" by auto
    then show False
    proof
      assume "sg = [] \<and> sg' = ''-''"
      with e have "hd (ds @ CHR ''-'' # number_to_string y) = CHR ''-''" by simp
      with ds hd_ds show False by simp
    next
      assume "sg = ''-'' \<and> sg' = []"
      with e have "hd (ds' @ CHR ''-'' # number_to_string y') = CHR ''-''"
        by (metis append_Cons append_Nil list.sel(1))
      with ds' hd_ds show False by simp
    qed
  qed
  with e have "ds @ CHR ''-'' # number_to_string y = ds' @ CHR ''-'' # number_to_string y'"
    by simp
  then have "ds = ds' \<and> number_to_string y = number_to_string y'"
    using ds(2) ds'(2) by (rule split_at_first[rotated 2])
  then have "ds = ds'" "number_to_string y = number_to_string y'" by simp_all
  with same x x' have "number_to_string x = number_to_string x'" by simp
  then have "x = x'" by (rule number_to_string_inj)
  moreover from \<open>number_to_string y = number_to_string y'\<close> have "y = y'"
    by (rule number_to_string_inj)
  ultimately show ?thesis by simp
qed

lemma nodeKey_example: "nodeKey 12 (- 3) = ''12--3''"
  by (simp add: nodeKey_def number_to_string_def nat_to_string.simps digit_def)

subsection \<open>The example states\<close>

lemma example_start_state:
  "run example_helpers example_start (initial example_host example_signals) =
     (initial example_host example_signals)
       \<lparr>app := Some \<lparr>destroyed = False, app_ticker = 0\<rparr>,
        mapContainer := Some (example_container\<lparr>cullable := True\<rparr>),
        playerIndicatorContainer := Some example_container,
        resizeObserver := Some \<lparr>observing = True\<rparr>,
        wheelListener := True, dragSetup := True, phase := TexturesPending,
        trace := [initAction example_host, PixiAppReady, LoadTexturesCalled]\<rparr>"
  by (simp add: example_start_def initial_def ngOnInit_call_def initPixi_resume_def
      setupMouseDragging_def example_init_def Let_def initAction_def)

lemma example_pending_fields:
  "zoomLevel example_pending = 1"
  "app example_pending = Some \<lparr>destroyed = False, app_ticker = 0\<rparr>"
  "mapContainer example_pending = Some (example_container\<lparr>cullable := True\<rparr>)"
  "playerIndicatorContainer example_pending = Some example_container"
  "resizeObserver example_pending = Some \<lparr>observing = True\<rparr>"
  "wheelListener example_pending"
  "phase example_pending = TexturesPending"
  "alive example_pending"
  "nodeSprites example_pending = Map.empty"
  "trace example_pending = [initAction example_host, PixiAppReady, LoadTexturesCalled]"
  unfolding example_pending_def example_start_state
  by (simp_all add: initial_def)

lemma onWheel_guard:
  "mapContainer s = None \<or> app s = None \<Longrightarrow> onWheel rect ev s = s"
  by (auto simp: onWheel_eq split: option.split)

lemma onWheel_zoomLevel:
  "mapContainer s = Some mc \<Longrightarrow> app s = Some a \<Longrightarrow>
   zoomLevel (onWheel rect ev s) = clampZoom (zoomLevel s + zoomDelta ev)"
  by (simp add: onWheel_eq onWheel_zoom_fields)

lemma wheel_out_step: "clampZoom (1 + zoomDelta wheel_out) = 0.9"
  by (simp add: clampZoom_def zoomDelta_def wheel_out_def minZoom_def maxZoom_def)

lemma wheel_in_step: "clampZoom (1 + zoomDelta wheel_in) = 1"
  by (simp add: clampZoom_def zoomDelta_def wheel_in_def minZoom_def maxZoom_def)

section \<open>The wheel handler\<close>

lemma wheel_step_changes:
  assumes "s = run H evs (initial host sg)"
    and "zoomLevel (step H (Wheel rect ev) s) \<noteq> zoomLevel s"
  shows "\<exists>mc pc. mapContainer s = Some mc \<and> playerIndicatorContainer s = Some pc \<and>
           clampZoom (zoomLevel s + zoomDelta ev) \<noteq> zoomLevel s \<and>
           minZoom \<le> zoomLevel s \<and>
           step H (Wheel rect ev) s =
             onWheel_zoom rect ev mc (zoomLevel s) (clampZoom (zoomLevel s + zoomDelta ev)) s"
proof -
  have inv: "lifecycle_inv s" using invs_reachable[of H evs host sg] assms(1) by simp
  have wl: "wheelListener s" using assms(2) by (auto split: if_splits)
  then obtain mc pc a where mc: "mapContainer s = Some mc"
    and pc: "playerIndicatorContainer s = Some pc" and a: "app s = Some a"
    using inv by (auto simp: lifecycle_inv_def split: if_splits)
  have ne: "clampZoom (zoomLevel s + zoomDelta ev) \<noteq> zoomLevel s"
    using assms(2) wl onWheel_unchanged[of s ev rect] by auto
  have "step H (Wheel rect ev) s =
          onWheel_zoom rect ev mc (zoomLevel s) (clampZoom (zoomLevel s + zoomDelta ev)) s"
    using wl ne by (simp add: onWheel_eq mc a)
  moreover have "minZoom \<le> zoomLevel s" using inv by (simp add: lifecycle_inv_def)
  ultimately show ?thesis using mc pc ne by simp
qed

text \<open>
  Claim C1. A wheel event that changes the zoom level passed both guards of the handler;
  the new offset of the map container is, in each coordinate, the cursor position minus
  the world point under the cursor times the new zoom, where the world point is computed
  from the offset and the zoom level before the event.
\<close>

theorem onWheel_reanchors_offset:
  assumes "zoomLevel (onWheel rect ev s) \<noteq> zoomLevel s"
  shows "\<exists>mc mc'. mapContainer s = Some mc \<and> mapContainer (onWheel rect ev s) = Some mc' \<and>
           pt_x (position mc') =
             (clientX ev - rect_left rect)
               - worldPointUnderCursor (clientX ev - rect_left rect) (pt_x (position mc)) (zoomLevel s)
                 * zoomLevel (onWheel rect ev s) \<and>
           pt_y (position mc') =
             (clientY ev - rect_top rect)
               - worldPointUnderCursor (clientY ev - rect_top rect) (pt_y (position mc)) (zoomLevel s)
                 * zoomLevel (onWheel rect ev s)"
proof -
  from assms obtain mc a where mc: "mapContainer s = Some mc" and a: "app s = Some a"
    using onWheel_guard[of s rect ev] by (cases "mapContainer s"; cases "app s") auto
  have ne: "clampZoom (zoomLevel s + zoomDelta ev) \<noteq> zoomLevel s"
    using assms onWheel_unchanged[of s ev rect] by auto
  have eq: "onWheel rect ev s =
      onWheel_zoom rect ev mc (zoomLevel s) (clampZoom (zoomLevel s + zoomDelta ev)) s"
    using ne by (simp add: onWheel_eq mc a)
  show ?thesis
    unfolding eq by (simp add: mc onWheel_zoom_fields)
qed

theorem onWheel_reanchors_offset_witness:
  "zoomLevel (onWheel example_rect wheel_out example_pending) \<noteq> zoomLevel example_pending \<and>
   (\<exists>mc'. mapContainer (onWheel example_rect wheel_out example_pending) = Some mc' \<and>
      pt_x (position mc') = 66 \<and> pt_y (position mc') = 74)"
proof -
  have z': "zoomLevel (onWheel example_rect wheel_out example_pending) = 0.9"
    by (simp add: onWheel_zoomLevel[OF example_pending_fields(3,2)] example_pending_fields(1)
        wheel_out_step)
  have h: "zoomLevel (onWheel example_rect wheel_out example_pending) \<noteq> zoomLevel example_pending"
    by (simp add: z' example_pending_fields(1))
  from onWheel_reanchors_offset[OF h]
  obtain mc mc' where mc: "mapContainer example_pending = Some mc"
    and mc': "mapContainer (onWheel example_rect wheel_out example_pending) = Some mc'"
    and px: "pt_x (position mc') =
             (clientX wheel_out - rect_left example_rect)
               - worldPointUnderCursor (clientX wheel_out - rect_left example_rect)
                   (pt_x (position mc)) (zoomLevel example_pending)
                 * zoomLevel (onWheel example_rect wheel_out example_pending)"
    and py: "pt_y (position mc') =
             (clientY wheel_out - rect_top example_rect)
               - worldPointUnderCursor (clientY wheel_out - rect_top example_rect)
                   (pt_y (position mc)) (zoomLevel example_pending)
                 * zoomLevel (onWheel example_rect wheel_out example_pending)"
    by blast
  from mc have m: "mc = example_container\<lparr>cullable := True\<rparr>"
    by (simp add: example_pending_fields)
  have "pt_x (position mc') = 66"
    unfolding px z' m example_pending_fields(1)
    by (simp add: worldPointUnderCursor_def example_container_def wheel_out_def example_rect_def)
  moreover have "pt_y (position mc') = 74"
    unfolding py z' m example_pending_fields(1)
    by (simp add: worldPointUnderCursor_def example_container_def wheel_out_def example_rect_def)
  ultimately show ?thesis using h mc' by blast
qed



text \<open>
  Claim C3. The zoom level starts at 1.0; after any sequence of events it lies between
  \<open>minZoom = 0.5\<close> and \<open>maxZoom = 1.0\<close>; and a wheel event delivered to the handler (the
  listener is registered) sets it to the old level plus or minus 0.1, clamped to these
  limits.
\<close>

theorem zoomLevel_stays_in_range:
  "zoomLevel (initial host sg) = 1 \<and> minZoom = 0.5 \<and> maxZoom = 1 \<and>
   minZoom \<le> zoomLevel (run H evs (initial host sg)) \<and>
   zoomLevel (run H evs (initial host sg)) \<le> maxZoom \<and>
   (zoomDelta ev = 0.1 \<or> zoomDelta ev = - 0.1) \<and>
   zoomLevel (step H (Wheel rect ev) (run H evs (initial host sg))) =
     (if wheelListener (run H evs (initial host sg))
      then clampZoom (zoomLevel (run H evs (initial host sg)) + zoomDelta ev)
      else zoomLevel (run H evs (initial host sg)))"
proof -
  let ?s = "run H evs (initial host sg)"
  have inv: "lifecycle_inv ?s" using invs_reachable[of H evs host sg] by simp
  have "wheelListener ?s \<Longrightarrow> zoomLevel (onWheel rect ev ?s) = clampZoom (zoomLevel ?s + zoomDelta ev)"
  proof -
    assume "wheelListener ?s"
    then obtain mc a where "mapContainer ?s = Some mc" "app ?s = Some a"
      using inv by (auto simp: lifecycle_inv_def split: if_splits)
    then show ?thesis by (rule onWheel_zoomLevel)
  qed
  moreover have "minZoom \<le> zoomLevel ?s \<and> zoomLevel ?s \<le> maxZoom"
    using inv by (simp add: lifecycle_inv_def)
  moreover have "zoomLevel (initial host sg) = 1" by (simp add: initial_def)
  ultimately show ?thesis
    by (simp add: minZoom_def maxZoom_def zoomDelta_def)
qed

theorem zoomLevel_stays_in_range_witness:
  "zoomLevel (run example_helpers (example_start @ [Wheel example_rect wheel_out])
                (initial example_host example_signals)) = 0.9 \<and>
   zoomLevel (run example_helpers (example_start @ [Wheel example_rect wheel_in])
                (initial example_host example_signals)) = 1"
proof -
  have wl: "wheelListener (run example_helpers example_start (initial example_host example_signals))"
    and z: "zoomLevel (run example_helpers example_start (initial example_host example_signals)) = 1"
    using example_pending_fields by (simp_all add: example_pending_def)
  have "zoomLevel (run example_helpers (example_start @ [Wheel example_rect wheel_out])
                (initial example_host example_signals)) = 0.9"
    using zoomLevel_stays_in_range[of example_host example_signals example_helpers example_start
        wheel_out example_rect] wl
    unfolding run_snoc z by (simp add: wheel_out_step)
  moreover
  have "zoomLevel (run example_helpers (example_start @ [Wheel example_rect wheel_in])
                (initial example_host example_signals)) = 1"
    using zoomLevel_stays_in_range[of example_host example_signals example_helpers example_start
        wheel_in example_rect] wl
    unfolding run_snoc z by (simp add: wheel_in_step)
  ultimately show ?thesis by simp
qed

text \<open>
  Claim C8. In every state the component reaches, after a wheel event that changes the
  zoom level both containers exist, both have the new zoom level as their scale in x and
  in y, and both have the same position.
\<close>

theorem wheel_zoom_scales_both_layers:
  assumes "s = run H evs (initial host sg)"
    and "s' = step H (Wheel rect ev) s"
    and "zoomLevel s' \<noteq> zoomLevel s"
  shows "\<exists>mc pc. mapContainer s' = Some mc \<and> playerIndicatorContainer s' = Some pc \<and>
           scale mc = \<lparr>pt_x = zoomLevel s', pt_y = zoomLevel s'\<rparr> \<and>
           scale pc = scale mc \<and> position pc = position mc"
proof -
  from wheel_step_changes[OF assms(1) assms(3)[unfolded assms(2)]]
  obtain mc pc where mc: "mapContainer s = Some mc"
    and pc: "playerIndicatorContainer s = Some pc"
    and eq: "s' = onWheel_zoom rect ev mc (zoomLevel s) (clampZoom (zoomLevel s + zoomDelta ev)) s"
    using assms(2) by auto
  show ?thesis
    unfolding eq by (simp add: mc pc onWheel_zoom_fields)
qed

theorem wheel_zoom_scales_both_layers_witness:
  "zoomLevel (step example_helpers (Wheel example_rect wheel_out) example_pending)
     \<noteq> zoomLevel example_pending \<and>
   (\<exists>mc pc. mapContainer (step example_helpers (Wheel example_rect wheel_out) example_pending) = Some mc \<and>
       playerIndicatorContainer (step example_helpers (Wheel example_rect wheel_out) example_pending) = Some pc \<and>
       scale mc = \<lparr>pt_x = 0.9, pt_y = 0.9\<rparr> \<and> scale pc = scale mc \<and> position pc = position mc)"
proof -
  have z': "zoomLevel (step example_helpers (Wheel example_rect wheel_out) example_pending) = 0.9"
    by (simp add: onWheel_zoomLevel[OF example_pending_fields(3,2)] example_pending_fields
        wheel_out_step)
  have h: "zoomLevel (step example_helpers (Wheel example_rect wheel_out) example_pending)
             \<noteq> zoomLevel example_pending"
    unfolding z' example_pending_fields(1) by simp
  from wheel_zoom_scales_both_layers[OF example_pending_def refl h] show ?thesis
    using h unfolding z' by blast
qed

text \<open>
  Claim C10. When the clamped new zoom equals the current zoom level the handler returns
  early and the component is left exactly as it was: zoom level, scales and positions of
  both containers, and every other field. For a zoom level within the limits this is the
  case exactly when zooming in at \<open>maxZoom\<close> or zooming out at \<open>minZoom\<close>.
\<close>

theorem wheel_at_zoom_limit_changes_nothing:
  "(clampZoom (zoomLevel s + zoomDelta ev) = zoomLevel s \<longrightarrow>
      onWheel rect ev s = s \<and> step H (Wheel rect ev) s = s) \<and>
   (minZoom \<le> zoomLevel s \<and> zoomLevel s \<le> maxZoom \<longrightarrow>
      (clampZoom (zoomLevel s + zoomDelta ev) = zoomLevel s) =
      (deltaY ev < 0 \<and> zoomLevel s = maxZoom \<or> \<not> deltaY ev < 0 \<and> zoomLevel s = minZoom))"
proof -
  have "clampZoom (zoomLevel s + zoomDelta ev) = zoomLevel s \<Longrightarrow> onWheel rect ev s = s"
    by (rule onWheel_unchanged)
  moreover have "minZoom \<le> zoomLevel s \<Longrightarrow> zoomLevel s \<le> maxZoom \<Longrightarrow>
      (clampZoom (zoomLevel s + zoomDelta ev) = zoomLevel s) =
      (deltaY ev < 0 \<and> zoomLevel s = maxZoom \<or> \<not> deltaY ev < 0 \<and> zoomLevel s = minZoom)"
    by (auto simp: clampZoom_def zoomDelta_def minZoom_def maxZoom_def)
  ultimately show ?thesis by auto
qed

theorem wheel_at_zoom_limit_changes_nothing_witness:
  "clampZoom (zoomLevel example_pending + zoomDelta wheel_in) = zoomLevel example_pending \<and>
   minZoom \<le> zoomLevel example_pending \<and> zoomLevel example_pending \<le> maxZoom \<and>
   deltaY wheel_in < 0 \<and> zoomLevel example_pending = maxZoom \<and>
   onWheel example_rect wheel_in example_pending = example_pending \<and>
   step example_helpers (Wheel example_rect wheel_in) example_pending = example_pending"
proof -
  have h: "clampZoom (zoomLevel example_pending + zoomDelta wheel_in) = zoomLevel example_pending"
    unfolding example_pending_fields(1) by (rule wheel_in_step)
  have r: "minZoom \<le> zoomLevel example_pending \<and> zoomLevel example_pending \<le> maxZoom"
    unfolding example_pending_fields(1) by (simp add: minZoom_def maxZoom_def)
  have d: "deltaY wheel_in < 0 \<and> zoomLevel example_pending = maxZoom"
    unfolding example_pending_fields(1) by (simp add: wheel_in_def maxZoom_def)
  from wheel_at_zoom_limit_changes_nothing[of example_pending wheel_in example_rect example_helpers]
  show ?thesis using h r d by blast
qed

section \<open>The tile window\<close>

text \<open>
  Claim C7. For every world size and viewport size the width of the tile window is
  \<open>min(world.width, windowWidthTiles + 1)\<close> and its height is
  \<open>min(world.height, windowHeightTiles + 1)\<close>; neither exceeds the world's, and these are
  the dimensions the map grid is generated for.
\<close>

theorem tile_window_within_world:
  "nodeWidth sg = min (width (world (sig_gamestate sg))) (windowWidthTiles sg + 1) \<and>
   nodeHeight sg = min (height (world (sig_gamestate sg))) (windowHeightTiles sg + 1) \<and>
   nodeWidth sg \<le> width (world (sig_gamestate sg)) \<and>
   nodeHeight sg \<le> height (world (sig_gamestate sg)) \<and>
   map_c H sg =
     generateMapGrid H (cam_x (camera (sig_gamestate sg))) (cam_y (camera (sig_gamestate sg)))
       (nodeWidth sg) (nodeHeight sg)
       (width (world (sig_gamestate sg))) (height (world (sig_gamestate sg)))"
  by (simp add: nodeWidth_def nodeHeight_def map_c_def Let_def)

theorem tile_window_within_world_witness:
  "nodeWidth example_signals = 13 \<and> nodeHeight example_signals = 9 \<and>
   nodeWidth example_signals \<le> width (world (sig_gamestate example_signals)) \<and>
   nodeHeight example_signals \<le> height (world (sig_gamestate example_signals))"
  using tile_window_within_world[of example_signals example_helpers]
  by (simp add: example_signals_def)

section \<open>Teardown\<close>

lemma released_ngOnDestroy: "released (ngOnDestroy s)"
  by (auto simp: released_def ngOnDestroy_def disconnect_def destroy_def)

lemma released_upd:
  "released (s\<lparr>alive := b\<rparr>) = released s"
  "released (s\<lparr>env := sg\<rparr>) = released s"
  "released (s\<lparr>trace := tr\<rparr>) = released s"
  "released (s\<lparr>phase := ph\<rparr>) = released s"
  by (simp_all add: released_def)

lemma released_loadTextures: "released (loadTextures le s) = released s"
  by (simp add: released_def loadTextures_frame)

lemma released_onWheel: "released (onWheel rect ev s) = released s"
  by (simp add: released_def onWheel_frame)

lemma released_dragged: "released (dragged p q s) = released s"
  by (simp add: released_def dragged_def)

lemma ngOnDestroy_phase: "phase (ngOnDestroy s) = phase s"
  by (simp add: ngOnDestroy_def)

lemma dragged_phase: "phase (dragged p q s) = phase s"
  by (simp add: dragged_def)

lemma released_frame: "frame s s' \<Longrightarrow> released s \<Longrightarrow> released s'"
  by (cases "app s"; cases "app s'") (auto simp: released_def frame_def)

lemma released_step:
  assumes "released s" and "phase s \<noteq> Constructed" and "phase s \<noteq> InitPending"
  shows "released (step H e s) \<and> phase (step H e s) \<noteq> Constructed \<and>
         phase (step H e s) \<noteq> InitPending"
proof (cases e)
  case NgOnInit
  then show ?thesis using assms by simp
next
  case (PixiAppResolved r)
  then show ?thesis using assms by simp
next
  case PixiAppRejected
  then show ?thesis using assms by simp
next
  case (TexturesSettled le)
  have "released ((loadTextures le s)\<lparr>trace := trace s @ [LoadTexturesReturned, UpdateMapCalled ByNgOnInit],
           phase := Mounted\<rparr>)"
    using assms(1) by (simp add: released_upd released_loadTextures)
  then have "released (ngOnInit_finish H le s)"
    by (rule released_frame[OF ngOnInit_finish_frame])
  moreover have "phase (ngOnInit_finish H le s) = Mounted"
    using ngOnInit_finish_frame[where le = le and s = s and H = H] by (simp add: frame_def)
  ultimately show ?thesis using assms by (simp add: TexturesSettled)
next
  case (SignalsChanged sg)
  let ?s1 = "s\<lparr>env := sg\<rparr>"
  let ?s2 = "?s1\<lparr>trace := trace ?s1 @ [UpdateMapCalled ByEffect]\<rparr>"
  have r1: "released ?s1" and r2: "released ?s2"
    using assms(1) by (simp_all add: released_upd)
  have fr: "frame ?s2 (updateMap H (tiles (map_c H sg)) ?s2)" by (rule frame_updateMap)
  have "released (updateMap H (tiles (map_c H sg)) ?s2)"
    by (rule released_frame[OF fr r2])
  moreover have "phase (updateMap H (tiles (map_c H sg)) ?s2) = phase s"
    using fr by (simp add: frame_def)
  ultimately show ?thesis
    using assms r1 by (simp add: SignalsChanged mapEffect_def Let_def)
next
  case (Wheel rect ev)
  then show ?thesis using assms by (simp add: released_onWheel onWheel_frame)
next
  case (Dragged p q)
  then show ?thesis using assms by (simp add: released_dragged dragged_phase)
next
  case NgOnDestroy
  then show ?thesis
    using assms by (simp add: released_upd released_ngOnDestroy ngOnDestroy_phase)
qed

lemma released_run:
  "released s \<Longrightarrow> phase s \<noteq> Constructed \<Longrightarrow> phase s \<noteq> InitPending \<Longrightarrow>
   released (run H evs s)"
proof (induction evs arbitrary: s)
  case Nil
  then show ?case by simp
next
  case (Cons e evs)
  from released_step[OF Cons.prems, of H e] show ?case
    by (simp add: Cons.IH)
qed

lemma run_append: "run H (es @ es') s = run H es' (run H es s)"
  by (induction es arbitrary: s) simp_all

text \<open>
  \<^verbatim>\<open>ngOnDestroy\<close> disconnects the resize observer the component holds and destroys the
  application it holds. When the component is torn down after \<^verbatim>\<open>initPixi\<close> has completed,
  it holds both, and whatever events follow the observer stays disconnected and the
  application destroyed.
\<close>

lemma ngOnDestroy_releases_held:
  "resizeObserver (ngOnDestroy s) = map_option disconnect (resizeObserver s) \<and>
   app (ngOnDestroy s) = map_option destroy (app s) \<and>
   (\<forall>ob. resizeObserver (ngOnDestroy s) = Some ob \<longrightarrow> \<not> observing ob) \<and>
   (\<forall>a. app (ngOnDestroy s) = Some a \<longrightarrow> destroyed a) \<and>
   (alive (run H evs (initial host sg)) \<and>
    (phase (run H evs (initial host sg)) = TexturesPending \<or>
     phase (run H evs (initial host sg)) = Mounted) \<longrightarrow>
      (\<exists>ob a. resizeObserver (run H (evs @ NgOnDestroy # evs') (initial host sg)) = Some ob \<and>
              \<not> observing ob \<and>
              app (run H (evs @ NgOnDestroy # evs') (initial host sg)) = Some a \<and>
              destroyed a))"
proof -
  let ?s = "run H evs (initial host sg)"
  let ?t = "run H (evs @ NgOnDestroy # evs') (initial host sg)"
  have later: "\<exists>ob a. resizeObserver ?t = Some ob \<and> \<not> observing ob \<and> app ?t = Some a \<and> destroyed a"
    if al: "alive ?s" and ph: "phase ?s = TexturesPending \<or> phase ?s = Mounted"
  proof -
    have t: "?t = run H evs' ((ngOnDestroy ?s)\<lparr>alive := False\<rparr>)"
      using al by (simp add: run_append)
    have "released ((ngOnDestroy ?s)\<lparr>alive := False\<rparr>)"
      by (simp add: released_upd released_ngOnDestroy)
    moreover have "phase ((ngOnDestroy ?s)\<lparr>alive := False\<rparr>) \<noteq> Constructed"
      "phase ((ngOnDestroy ?s)\<lparr>alive := False\<rparr>) \<noteq> InitPending"
      using ph by (auto simp: ngOnDestroy_phase)
    ultimately have rel: "released ?t" unfolding t by (rule released_run)
    have "lifecycle_inv ?t" using invs_reachable[of H "evs @ NgOnDestroy # evs'" host sg] by simp
    moreover have "phase ?t = TexturesPending \<or> phase ?t = Mounted"
    proof -
      have "\<And>s. phase s = TexturesPending \<or> phase s = Mounted \<Longrightarrow>
          phase (run H evs' s) = TexturesPending \<or> phase (run H evs' s) = Mounted"
      proof (induction evs')
        case Nil
        then show ?case by simp
      next
        case (Cons e es)
        have "phase (step H e s) = TexturesPending \<or> phase (step H e s) = Mounted"
        proof (cases e)
          case (TexturesSettled le)
          have "phase (ngOnInit_finish H le s) = Mounted"
            using ngOnInit_finish_frame[where le = le and s = s and H = H] by (simp add: frame_def)
          then show ?thesis using Cons.prems by (auto simp: TexturesSettled)
        next
          case (SignalsChanged sg')
          have "frame (s\<lparr>env := sg', trace := trace s @ [UpdateMapCalled ByEffect]\<rparr>)
              (updateMap H (tiles (map_c H sg'))
                 (s\<lparr>env := sg', trace := trace s @ [UpdateMapCalled ByEffect]\<rparr>))"
            by (rule frame_updateMap)
          then have "phase (updateMap H (tiles (map_c H sg'))
                 (s\<lparr>env := sg', trace := trace s @ [UpdateMapCalled ByEffect]\<rparr>)) = phase s"
            by (simp add: frame_def)
          then show ?thesis
            using Cons.prems by (auto simp: SignalsChanged mapEffect_def Let_def)
        qed (use Cons.prems in \<open>auto simp: onWheel_frame dragged_phase ngOnDestroy_phase\<close>)
        then show ?case using Cons.IH[of "step H e s"] by simp
      qed
      from this[of "(ngOnDestroy ?s)\<lparr>alive := False\<rparr>"] ph show ?thesis
        unfolding t by (simp add: ngOnDestroy_phase)
    qed
    ultimately obtain ob a where "resizeObserver ?t = Some ob" "app ?t = Some a"
      by (auto simp: lifecycle_inv_def split: if_splits)
    with rel show ?thesis by (auto simp: released_def)
  qed
  show ?thesis
    using later by (auto simp: ngOnDestroy_def disconnect_def destroy_def)
qed

lemma ngOnDestroy_releases_held_example:
  "resizeObserver example_pending = Some \<lparr>observing = True\<rparr> \<and>
   app example_pending = Some \<lparr>destroyed = False, app_ticker = 0\<rparr> \<and>
   resizeObserver (ngOnDestroy example_pending) = Some \<lparr>observing = False\<rparr> \<and>
   app (ngOnDestroy example_pending) = Some \<lparr>destroyed = True, app_ticker = 0\<rparr> \<and>
   alive example_pending \<and> phase example_pending = TexturesPending \<and>
   (\<exists>ob a. resizeObserver (run example_helpers (example_start @ NgOnDestroy # example_teardown)
                (initial example_host example_signals)) = Some ob \<and>
           \<not> observing ob \<and>
           app (run example_helpers (example_start @ NgOnDestroy # example_teardown)
                (initial example_host example_signals)) = Some a \<and>
           destroyed a)"
  using ngOnDestroy_releases_held[of example_pending example_helpers example_start example_host
      example_signals example_teardown]
  by (simp add: example_pending_fields disconnect_def destroy_def example_pending_def[symmetric])

text \<open>
  Once the component is torn down and \<^verbatim>\<open>initPixi\<close> has completed, no event changes the
  observer, nor whether the application is destroyed, nor the wheel listener: the hook
  does not run twice and nothing else disconnects or destroys.
\<close>

lemma torn_down_step:
  assumes "\<not> alive s" and "phase s = TexturesPending \<or> phase s = Mounted"
  shows "\<not> alive (step H e s) \<and>
         (phase (step H e s) = TexturesPending \<or> phase (step H e s) = Mounted) \<and>
         resizeObserver (step H e s) = resizeObserver s \<and>
         map_option destroyed (app (step H e s)) = map_option destroyed (app s) \<and>
         wheelListener (step H e s) = wheelListener s"
proof (cases e)
  case NgOnInit
  then show ?thesis using assms by auto
next
  case (PixiAppResolved r)
  then show ?thesis using assms by auto
next
  case PixiAppRejected
  then show ?thesis using assms by auto
next
  case (TexturesSettled le)
  show ?thesis
  proof (cases "phase s = TexturesPending")
    case True
    have "frame ((loadTextures le s)\<lparr>trace := trace s @ [LoadTexturesReturned, UpdateMapCalled ByNgOnInit],
           phase := Mounted\<rparr>) (ngOnInit_finish H le s)"
      by (rule ngOnInit_finish_frame)
    then show ?thesis
      using assms True by (simp add: TexturesSettled frame_def loadTextures_frame)
  next
    case False
    then show ?thesis using assms by (simp add: TexturesSettled)
  qed
next
  case (SignalsChanged sg)
  then show ?thesis using assms by auto
next
  case (Wheel rect ev)
  then show ?thesis using assms by (auto simp: onWheel_frame)
next
  case (Dragged p q)
  then show ?thesis using assms by (auto simp: dragged_def)
next
  case NgOnDestroy
  then show ?thesis using assms by auto
qed

lemma torn_down_run:
  "\<not> alive s \<Longrightarrow> phase s = TexturesPending \<or> phase s = Mounted \<Longrightarrow>
   \<not> alive (run H evs s) \<and>
   resizeObserver (run H evs s) = resizeObserver s \<and>
   map_option destroyed (app (run H evs s)) = map_option destroyed (app s) \<and>
   wheelListener (run H evs s) = wheelListener s"
proof (induction evs arbitrary: s)
  case Nil
  then show ?case by simp
next
  case (Cons e evs)
  from torn_down_step[OF Cons.prems, of H e] Cons.IH[of "step H e s"] show ?case
    by simp
qed

lemma late_init_state:
  "\<not> alive (run H [NgOnInit, NgOnDestroy, PixiAppResolved r] (initial host sg))"
  "phase (run H [NgOnInit, NgOnDestroy, PixiAppResolved r] (initial host sg)) = TexturesPending"
  "resizeObserver (run H [NgOnInit, NgOnDestroy, PixiAppResolved r] (initial host sg))
     = Some (ir_resizeObserver r)"
  "app (run H [NgOnInit, NgOnDestroy, PixiAppResolved r] (initial host sg)) = Some (ir_app r)"
  "wheelListener (run H [NgOnInit, NgOnDestroy, PixiAppResolved r] (initial host sg))"
  by (simp_all add: initial_def ngOnInit_call_def ngOnDestroy_def initPixi_resume_def
      setupMouseDragging_def Let_def)

text \<open>
  Claim C9 fails on the code. When Angular destroys the component while \<^verbatim>\<open>initPixi\<close> is
  still awaiting \<^verbatim>\<open>initializePixiApp\<close>, \<^verbatim>\<open>ngOnDestroy\<close> finds neither an observer nor an
  application and does nothing. \<^verbatim>\<open>initPixi\<close> resumes when the promise fulfils and stores
  the application and the observer that \<^verbatim>\<open>setupResponsiveCanvas\<close> returned, and registers
  the wheel listener. Whatever events follow, the component is no longer alive, the
  observer it holds is the one it was given, never disconnected, the application is
  destroyed only if it was so when it was handed over, and the wheel listener stays.
\<close>

theorem teardown_before_initPixi_leaks:
  "resizeObserver (run H [NgOnInit, NgOnDestroy] (initial host sg)) = None \<and>
   app (run H [NgOnInit, NgOnDestroy] (initial host sg)) = None \<and>
   \<not> alive (run H ([NgOnInit, NgOnDestroy, PixiAppResolved r] @ evs) (initial host sg)) \<and>
   resizeObserver (run H ([NgOnInit, NgOnDestroy, PixiAppResolved r] @ evs) (initial host sg))
     = Some (ir_resizeObserver r) \<and>
   map_option destroyed
       (app (run H ([NgOnInit, NgOnDestroy, PixiAppResolved r] @ evs) (initial host sg)))
     = Some (destroyed (ir_app r)) \<and>
   wheelListener (run H ([NgOnInit, NgOnDestroy, PixiAppResolved r] @ evs) (initial host sg))"
proof -
  let ?s = "run H [NgOnInit, NgOnDestroy, PixiAppResolved r] (initial host sg)"
  have early: "resizeObserver (run H [NgOnInit, NgOnDestroy] (initial host sg)) = None \<and>
      app (run H [NgOnInit, NgOnDestroy] (initial host sg)) = None"
    by (simp add: initial_def ngOnInit_call_def ngOnDestroy_def)
  have "\<not> alive (run H evs ?s) \<and>
   resizeObserver (run H evs ?s) = resizeObserver ?s \<and>
   map_option destroyed (app (run H evs ?s)) = map_option destroyed (app ?s) \<and>
   wheelListener (run H evs ?s) = wheelListener ?s"
    by (rule torn_down_run[OF late_init_state(1)]) (simp only: late_init_state(2) simp_thms)
  then have later: "\<not> alive (run H evs ?s) \<and>
   resizeObserver (run H evs ?s) = Some (ir_resizeObserver r) \<and>
   map_option destroyed (app (run H evs ?s)) = Some (destroyed (ir_app r)) \<and>
   wheelListener (run H evs ?s)"
    by (simp only: late_init_state option.map simp_thms)
  have tail: "run H ([NgOnInit, NgOnDestroy, PixiAppResolved r] @ evs) (initial host sg)
      = run H evs ?s"
    by (rule run_append)
  from early later show ?thesis
    unfolding tail by blast
qed

theorem teardown_before_initPixi_leaks_witness:
  "resizeObserver (run example_helpers (late_init @ example_teardown)
       (initial example_host example_signals)) = Some \<lparr>observing = True\<rparr> \<and>
   map_option destroyed (app (run example_helpers (late_init @ example_teardown)
       (initial example_host example_signals))) = Some False \<and>
   \<not> released (run example_helpers (late_init @ example_teardown)
       (initial example_host example_signals))"
proof -
  from teardown_before_initPixi_leaks[of example_helpers example_host example_signals
      example_init example_teardown]
  have ob: "resizeObserver (run example_helpers (late_init @ example_teardown)
       (initial example_host example_signals)) = Some \<lparr>observing = True\<rparr>"
    and ap: "map_option destroyed (app (run example_helpers (late_init @ example_teardown)
       (initial example_host example_signals))) = Some False"
    unfolding late_init_def by (simp_all add: example_init_def)
  from ob ap show ?thesis by (auto simp: released_def)
qed

section \<open>Redrawing the map\<close>

lemma updateMap_guard_at_calls:
  assumes "s = run H evs (initial host sg)"
  shows "app s \<noteq> None \<and> mapContainer s \<noteq> None \<longrightarrow> playerIndicatorContainer s \<noteq> None"
    and "phase s = TexturesPending \<longrightarrow>
           mapContainer (loadTextures le s) \<noteq> None \<and>
           playerIndicatorContainer (loadTextures le s) \<noteq> None"
  using invs_reachable[of H evs host sg] assms
  by (auto simp: lifecycle_inv_def loadTextures_frame split: if_splits)

lemma updateMap_steps:
  "mapContainer s = Some mc \<Longrightarrow> playerIndicatorContainer s = Some pc \<Longrightarrow>
   updateMap H mapData s =
     updatePlayerIndicators H mapData
       (forEachTile (\<lambda>t. createNodeSprites H (tile_x t) (tile_y t) (nodeData t)) mapData
          (clearMap mc pc s))"
  by (simp add: updateMap_def Let_def)

text \<open>
  Claim C4. A call of \<^verbatim>\<open>updateMap\<close> that finds both containers first empties the
  registry and removes the children of both containers, then creates the sprites tile by
  tile. Afterwards the registry holds, under the key \<open>x-y\<close>, the data the helper returned
  for the tile \<open>(x, y)\<close> (the last one, should a tile occur twice), and nothing else: its
  keys are the keys of the tiles for which the helper returned data, and it does not
  depend on what the registry held before. Different tiles have different keys. Every
  call the component makes finds both containers: the effect calls only when the
  application and the map container exist, and \<^verbatim>\<open>ngOnInit\<close> calls after \<^verbatim>\<open>initPixi\<close>.
\<close>

theorem updateMap_rebuilds_registry:
  "(mapContainer s = Some mc \<and> playerIndicatorContainer s = Some pc \<longrightarrow>
      updateMap H mapData s =
        updatePlayerIndicators H mapData
          (forEachTile (\<lambda>t. createNodeSprites H (tile_x t) (tile_y t) (nodeData t)) mapData
             (clearMap mc pc s)) \<and>
      nodeSprites (clearMap mc pc s) = Map.empty \<and>
      (\<exists>c. mapContainer (clearMap mc pc s) = Some c \<and> children c = []) \<and>
      (\<exists>c. playerIndicatorContainer (clearMap mc pc s) = Some c \<and> children c = []) \<and>
      nodeSprites (updateMap H mapData s) =
        registryOf (spritesCreated H (terrainTextures s) (objectTextures s)
                      (checkTexture s) (xTexture s) (concat mapData) (removeChildren mc)) \<and>
      dom (nodeSprites (updateMap H mapData s)) =
        {nodeKey x y | x y d.
           (x, y, d) \<in> set (spritesCreated H (terrainTextures s) (objectTextures s)
                      (checkTexture s) (xTexture s) (concat mapData) (removeChildren mc))} \<and>
      nodeSprites (updateMap H mapData (s\<lparr>nodeSprites := old\<rparr>)) =
        nodeSprites (updateMap H mapData s)) \<and>
   (nodeKey x y = nodeKey x' y' \<longrightarrow> x = x' \<and> y = y') \<and>
   (app (run H evs (initial host sg)) \<noteq> None \<and> mapContainer (run H evs (initial host sg)) \<noteq> None
      \<longrightarrow> playerIndicatorContainer (run H evs (initial host sg)) \<noteq> None) \<and>
   (phase (run H evs (initial host sg)) = TexturesPending \<longrightarrow>
      mapContainer (loadTextures le (run H evs (initial host sg))) \<noteq> None \<and>
      playerIndicatorContainer (loadTextures le (run H evs (initial host sg))) \<noteq> None)"
proof -
  have a: "mapContainer s = Some mc \<Longrightarrow> playerIndicatorContainer s = Some pc \<Longrightarrow>
      nodeSprites (updateMap H mapData s) =
        registryOf (spritesCreated H (terrainTextures s) (objectTextures s)
                      (checkTexture s) (xTexture s) (concat mapData) (removeChildren mc))"
    by (rule updateMap_registry)
  have b: "mapContainer s = Some mc \<Longrightarrow> playerIndicatorContainer s = Some pc \<Longrightarrow>
      nodeSprites (updateMap H mapData (s\<lparr>nodeSprites := old\<rparr>)) =
        registryOf (spritesCreated H (terrainTextures s) (objectTextures s)
                      (checkTexture s) (xTexture s) (concat mapData) (removeChildren mc))"
    using updateMap_registry[of "s\<lparr>nodeSprites := old\<rparr>" mc pc H mapData] by simp
  have c: "(\<exists>c. mapContainer (clearMap mc pc s) = Some c \<and> children c = []) \<and>
      (\<exists>c. playerIndicatorContainer (clearMap mc pc s) = Some c \<and> children c = []) \<and>
      nodeSprites (clearMap mc pc s) = Map.empty"
    by (simp add: clearMap_fields removeChildren_def)
  have d: "nodeKey x y = nodeKey x' y' \<longrightarrow> x = x' \<and> y = y'"
    using nodeKey_inj by blast
  note e = updateMap_guard_at_calls[OF refl, of H evs host sg]
  show ?thesis
    using a b c d e(1) e(2)[of le] updateMap_steps[of s mc pc H mapData]
    by (simp add: dom_registryOf)
qed

lemma nodeKey_examples:
  "nodeKey 3 4 = ''3-4''" "nodeKey 3 5 = ''3-5''" "nodeKey 4 4 = ''4-4''" "nodeKey 9 9 = ''9-9''"
  by (simp_all add: nodeKey_def number_to_string_def nat_to_string_small digit_def)

lemma example_stale_fields:
  "mapContainer example_stale = Some (example_container\<lparr>cullable := True\<rparr>)"
  "playerIndicatorContainer example_stale = Some example_container"
  "nodeSprites example_stale ''9-9'' = Some stale_entry"
  "terrainTextures example_stale = [''grass'' \<mapsto> 7]"
  by (simp_all add: example_stale_def example_pending_fields loadTextures_frame
      loadTextures_def load_ok_def example_textures_def Let_def)

theorem updateMap_rebuilds_registry_witness:
  "mapContainer example_stale = Some (example_container\<lparr>cullable := True\<rparr>) \<and>
   playerIndicatorContainer example_stale = Some example_container \<and>
   nodeSprites example_stale ''9-9'' = Some stale_entry \<and>
   nodeSprites (updateMap example_helpers example_tiles example_stale) ''9-9'' = None \<and>
   nodeSprites (updateMap example_helpers example_tiles example_stale) ''3-4''
     = Some \<lparr>terrain = 7, object = None, claimIndicator = None\<rparr> \<and>
   nodeSprites (updateMap example_helpers example_tiles example_stale) ''3-5''
     = Some \<lparr>terrain = 7, object = None, claimIndicator = None\<rparr> \<and>
   nodeSprites (updateMap example_helpers example_tiles example_stale) ''4-4'' = None"
proof -
  note f = example_stale_fields
  have made: "spritesCreated example_helpers [''grass'' \<mapsto> 7]
        (objectTextures example_stale) (checkTexture example_stale) (xTexture example_stale)
        (concat example_tiles) (removeChildren (example_container\<lparr>cullable := True\<rparr>))
      = [(3, 4, \<lparr>terrain = 7, object = None, claimIndicator = None\<rparr>),
         (3, 5, \<lparr>terrain = 7, object = None, claimIndicator = None\<rparr>)]"
    by (simp add: example_tiles_def example_helpers_def Let_def)
  from updateMap_rebuilds_registry[of example_stale "example_container\<lparr>cullable := True\<rparr>"
      example_container example_helpers example_tiles]
  have "nodeSprites (updateMap example_helpers example_tiles example_stale) =
        registryOf [(3, 4, \<lparr>terrain = 7, object = None, claimIndicator = None\<rparr>),
         (3, 5, \<lparr>terrain = 7, object = None, claimIndicator = None\<rparr>)]"
    using f(1,2) unfolding f(4) made by blast
  then show ?thesis
    using f(1,2,3) by (simp add: registryOf_def nodeKey_examples)
qed

section \<open>Texture loading\<close>

lemma example_pending_textures:
  "terrainTextures example_pending = Map.empty"
  "objectTextures example_pending = Map.empty"
  "checkTexture example_pending = None"
  "xTexture example_pending = None"
  "errorLog example_pending = []"
  "loadCalls example_pending = 0"
  unfolding example_pending_def example_start_state
  by (simp_all add: initial_def)

text \<open>
  Claim C5, as stated, fails: when the exception comes from
  \<^verbatim>\<open>createClaimIndicatorTextures\<close>, the terrain and object textures have been assigned
  before the \<^verbatim>\<open>catch\<close> logs it.
\<close>

theorem loadTextures_partial_on_late_throw:
  "terrainTextures example_pending ''grass'' = None \<and>
   errorLog (loadTextures indicators_throw example_pending)
     = [(''Failed to load textures:'', Error ''no canvas'')] \<and>
   terrainTextures (loadTextures indicators_throw example_pending) ''grass'' = Some 7 \<and>
   objectTextures (loadTextures indicators_throw example_pending) ''tree'' = Some 8 \<and>
   checkTexture (loadTextures indicators_throw example_pending) = None"
  by (simp add: loadTextures_def logError_def Let_def indicators_throw_def example_textures_def
      example_pending_textures)

text \<open>
  Claim C5, amended. \<^verbatim>\<open>loadTextures\<close> never throws. If \<^verbatim>\<open>artAtlases()\<close> throws, or
  \<^verbatim>\<open>loadGameMapTextures\<close> throws or rejects, one error is logged and nothing else changes:
  all four texture fields are as before (empty and undefined after construction), and
  \<^verbatim>\<open>loadGameMapTextures\<close> has been called at most once. If \<^verbatim>\<open>createClaimIndicatorTextures\<close>
  throws, one error is logged, the terrain and object textures are the loaded ones and
  the two indicator textures are as before. If nothing throws, all four fields are
  assigned and nothing is logged.
\<close>

theorem loadTextures_outcomes:
  "(artAtlases le = Inl e \<longrightarrow>
      loadTextures le s = s\<lparr>errorLog := errorLog s @ [(''Failed to load textures:'', e)]\<rparr>) \<and>
   (artAtlases le = Inr atl \<and>
    loadGameMapTextures le (atl ''world-terrain'') (atl ''world-object'') = Inl e \<longrightarrow>
      loadTextures le s =
        s\<lparr>loadCalls := loadCalls s + 1,
          errorLog := errorLog s @ [(''Failed to load textures:'', e)]\<rparr>) \<and>
   (artAtlases le = Inr atl \<and>
    loadGameMapTextures le (atl ''world-terrain'') (atl ''world-object'') = Inr textures \<and>
    createClaimIndicatorTextures le = Inl e \<longrightarrow>
      loadTextures le s =
        s\<lparr>loadCalls := loadCalls s + 1,
          terrainTextures := gm_terrainTextures textures,
          objectTextures := gm_objectTextures textures,
          errorLog := errorLog s @ [(''Failed to load textures:'', e)]\<rparr>) \<and>
   (artAtlases le = Inr atl \<and>
    loadGameMapTextures le (atl ''world-terrain'') (atl ''world-object'') = Inr textures \<and>
    createClaimIndicatorTextures le = Inr claimTextures \<longrightarrow>
      loadTextures le s =
        s\<lparr>loadCalls := loadCalls s + 1,
          terrainTextures := gm_terrainTextures textures,
          objectTextures := gm_objectTextures textures,
          checkTexture := Some (ci_checkTexture claimTextures),
          xTexture := Some (ci_xTexture claimTextures)\<rparr>)"
  by (simp add: loadTextures_def logError_def Let_def)

theorem loadTextures_outcomes_witness:
  "loadTextures load_rejected example_pending =
     example_pending\<lparr>loadCalls := 1, errorLog := [(''Failed to load textures:'', Error ''404'')]\<rparr> \<and>
   terrainTextures (loadTextures load_rejected example_pending) = Map.empty \<and>
   objectTextures (loadTextures load_rejected example_pending) = Map.empty \<and>
   checkTexture (loadTextures load_rejected example_pending) = None \<and>
   xTexture (loadTextures load_rejected example_pending) = None \<and>
   loadTextures indicators_throw example_pending =
     example_pending\<lparr>loadCalls := 1,
       terrainTextures := [''grass'' \<mapsto> 7], objectTextures := [''tree'' \<mapsto> 8],
       errorLog := [(''Failed to load textures:'', Error ''no canvas'')]\<rparr> \<and>
   loadTextures load_ok example_pending =
     example_pending\<lparr>loadCalls := 1,
       terrainTextures := [''grass'' \<mapsto> 7], objectTextures := [''tree'' \<mapsto> 8],
       checkTexture := Some 3, xTexture := Some 4\<rparr>"
proof -
  have r: "artAtlases load_rejected = Inr Map.empty \<and>
      loadGameMapTextures load_rejected (Map.empty ''world-terrain'') (Map.empty ''world-object'')
        = Inl (Error ''404'')"
    by (simp add: load_rejected_def)
  have t: "artAtlases indicators_throw = Inr Map.empty \<and>
      loadGameMapTextures indicators_throw (Map.empty ''world-terrain'') (Map.empty ''world-object'')
        = Inr example_textures \<and>
      createClaimIndicatorTextures indicators_throw = Inl (Error ''no canvas'')"
    by (simp add: indicators_throw_def)
  have k: "artAtlases load_ok = Inr Map.empty \<and>
      loadGameMapTextures load_ok (Map.empty ''world-terrain'') (Map.empty ''world-object'')
        = Inr example_textures \<and>
      createClaimIndicatorTextures load_ok = Inr \<lparr>ci_checkTexture = 3, ci_xTexture = 4\<rparr>"
    by (simp add: load_ok_def)
  have 1: "loadTextures load_rejected example_pending =
     example_pending\<lparr>loadCalls := 1, errorLog := [(''Failed to load textures:'', Error ''404'')]\<rparr>"
    using loadTextures_outcomes[of load_rejected "Error ''404''" example_pending Map.empty] r
    by (simp add: example_pending_textures)
  have 2: "loadTextures indicators_throw example_pending =
     example_pending\<lparr>loadCalls := 1,
       terrainTextures := [''grass'' \<mapsto> 7], objectTextures := [''tree'' \<mapsto> 8],
       errorLog := [(''Failed to load textures:'', Error ''no canvas'')]\<rparr>"
    using loadTextures_outcomes[of indicators_throw "Error ''no canvas''" example_pending Map.empty
        example_textures] t
    by (simp add: example_pending_textures example_textures_def)
  have 3: "loadTextures load_ok example_pending =
     example_pending\<lparr>loadCalls := 1,
       terrainTextures := [''grass'' \<mapsto> 7], objectTextures := [''tree'' \<mapsto> 8],
       checkTexture := Some 3, xTexture := Some 4\<rparr>"
    using loadTextures_outcomes[of load_ok _ example_pending Map.empty
        example_textures "\<lparr>ci_checkTexture = 3, ci_xTexture = 4\<rparr>"] k
    by (simp add: example_pending_textures example_textures_def)
  show ?thesis
    unfolding 1 2 3 by (simp add: example_pending_textures)
qed

section \<open>Mount\<close>

subsection \<open>Before the textures are loaded\<close>



















subsection \<open>The registry after each call of the mount\<close>





subsection \<open>The example runs\<close>














end
